theory Spec2Isabelle
  imports Complex_Main
begin

section \<open>Numbers, randomness and the helper functions of the utilities module\<close>

text \<open>
  JavaScript numbers are modelled as \<^typ>\<open>real\<close>: the values the engine works with
  (milliseconds, pixels, velocities) are finite, and rounding, infinities and NaN are
  outside the model.  \<open>Math.random()\<close> is a stream of draws \<open>rng\<close>: every call takes
  the head of the stream and leaves the tail, so a function that draws returns the
  stream it leaves behind.  \<open>performance.now()\<close> is a parameter \<open>now\<close> of the call
  that reads the clock; it is read once per top-level call.
\<close>

type_synonym rng = "nat \<Rightarrow> real"

definition rng_head :: "rng \<Rightarrow> real" where
  "rng_head r = r 0"

definition rng_tail :: "rng \<Rightarrow> rng" where
  "rng_tail r = (\<lambda>n. r (Suc n))"

text \<open>\<open>randomBetween(min, max)\<close> is \<open>Math.random() * (max - min) + min\<close>; the draw is \<open>u\<close>.\<close>

definition randomBetween :: "real \<Rightarrow> real \<Rightarrow> real \<Rightarrow> real" where
  "randomBetween u mn mx = u * (mx - mn) + mn"

text \<open>\<open>randomIntBetween(min, max)\<close> is \<open>Math.floor(Math.random() * (max - min + 1)) + min\<close>.\<close>

definition randomIntBetween :: "real \<Rightarrow> int \<Rightarrow> int \<Rightarrow> int" where
  "randomIntBetween u mn mx = \<lfloor>u * real_of_int (mx - mn + 1)\<rfloor> + mn"

definition easeOut :: "real \<Rightarrow> real" where
  "easeOut t = 1 - (1 - t) ^ 3"

definition easeBounce :: "real \<Rightarrow> real" where
  "easeBounce t =
     (if t < 1 / 2.75 then 7.5625 * t * t
      else if t < 2 / 2.75 then (let t1 = t - 1.5 / 2.75 in 7.5625 * t1 * t1 + 0.75)
      else if t < 2.5 / 2.75 then (let t1 = t - 2.25 / 2.75 in 7.5625 * t1 * t1 + 0.9375)
      else (let t1 = t - 2.625 / 2.75 in 7.5625 * t1 * t1 + 0.984375))"

text \<open>
  The remainder operator \<open>%\<close> of JavaScript truncates the quotient towards zero, so the
  result has the sign of the dividend.  \<open>js_rem\<close> is \<open>%\<close> on numbers, \<open>js_rem_int\<close> the
  same on integer values.  Both are used with a positive divisor only.
\<close>

definition js_trunc :: "real \<Rightarrow> int" where
  "js_trunc r = (if 0 \<le> r then \<lfloor>r\<rfloor> else \<lceil>r\<rceil>)"

definition js_rem :: "real \<Rightarrow> real \<Rightarrow> real" where
  "js_rem a b = a - b * real_of_int (js_trunc (a / b))"

definition js_rem_int :: "int \<Rightarrow> int \<Rightarrow> int" where
  "js_rem_int a b = (if 0 \<le> a then a mod b else - ((- a) mod b))"

text \<open>
  An array read \<open>arr[i]\<close> with a numeric index: \<open>undefined\<close> (here \<open>None\<close>) unless the
  index is a position of the array.
\<close>

definition js_index :: "'a list \<Rightarrow> int \<Rightarrow> 'a option" where
  "js_index xs i = (if 0 \<le> i \<and> i < int (length xs) then Some (xs ! nat i) else None)"

subsection \<open>Configuration constants\<close>

definition BABY_COLORS :: "string list" where
  "BABY_COLORS =
     [''#FF6B6B'', ''#4ECDC4'', ''#45B7D1'', ''#96CEB4'', ''#FFEAA7'', ''#DDA0DD'',
      ''#FFB6C1'', ''#98FB98'', ''#FFA07A'', ''#87CEEB'', ''#F0E68C'', ''#DEB887'']"

definition CONFIG_shapes_types :: "string list" where
  "CONFIG_shapes_types = [''circle'', ''square'', ''triangle'', ''star'', ''heart'']"

definition CONFIG_shapes_minSize :: real where
  "CONFIG_shapes_minSize = 40"

definition CONFIG_shapes_maxSize :: real where
  "CONFIG_shapes_maxSize = 120"

definition CONFIG_shapes_animationDuration :: real where
  "CONFIG_shapes_animationDuration = 3000"

definition CONFIG_shapes_fadeOutDuration :: real where
  "CONFIG_shapes_fadeOutDuration = 1500"

definition CONFIG_shapes_maxActiveShapes :: nat where
  "CONFIG_shapes_maxActiveShapes = 15"

definition CONFIG_particles_minSize :: real where
  "CONFIG_particles_minSize = 3"

definition CONFIG_particles_maxSize :: real where
  "CONFIG_particles_maxSize = 8"

definition CONFIG_particles_maxActiveParticles :: nat where
  "CONFIG_particles_maxActiveParticles = 100"

definition CONFIG_audio_volume :: real where
  "CONFIG_audio_volume = 0.7"

definition CONFIG_audio_maxConcurrentSounds :: nat where
  "CONFIG_audio_maxConcurrentSounds = 5"

definition getRandomColor :: "rng \<Rightarrow> string option \<times> rng" where
  "getRandomColor r =
     (js_index BABY_COLORS \<lfloor>rng_head r * real (length BABY_COLORS)\<rfloor>, rng_tail r)"

text \<open>\<open>getRandomPosition\<close> draws \<open>x\<close> first, then \<open>y\<close>.\<close>

definition getRandomPosition :: "real \<Rightarrow> real \<Rightarrow> real \<Rightarrow> rng \<Rightarrow> (real \<times> real) \<times> rng" where
  "getRandomPosition canvasWidth canvasHeight padding r =
     ((randomBetween (rng_head r) padding (canvasWidth - padding),
       randomBetween (rng_head (rng_tail r)) padding (canvasHeight - padding)),
      rng_tail (rng_tail r))"

section \<open>The object pool\<close>

text \<open>
  Pooled objects are mutable and shared by reference between the free-list of the pool
  and the live collection of a manager.  An object is therefore an address \<open>'o\<close> into
  a store \<open>'h\<close>; \<open>createFn\<close> allocates in the store, \<open>resetFn\<close> (which may be absent)
  rewrites the object at an address in place.  The free-list is the array \<open>pool\<close>:
  \<open>push\<close> appends at the end and \<open>pop\<close> takes from the end.
\<close>

record ('o, 'h) ObjectPool =
  createFn :: "'h \<Rightarrow> 'o \<times> 'h"
  resetFn :: "('o \<Rightarrow> 'h \<Rightarrow> 'h) option"
  pool :: "'o list"

text \<open>The pre-population loop of the constructor: \<open>initialSize\<close> calls of \<open>createFn\<close>.\<close>

fun ObjectPool_prepopulate ::
  "nat \<Rightarrow> ('o, 'h) ObjectPool \<Rightarrow> 'h \<Rightarrow> ('o, 'h) ObjectPool \<times> 'h" where
  "ObjectPool_prepopulate 0 p h = (p, h)"
| "ObjectPool_prepopulate (Suc n) p h =
     (case createFn p h of
        (ob, h') \<Rightarrow> ObjectPool_prepopulate n (p\<lparr>pool := pool p @ [ob]\<rparr>) h')"

definition ObjectPool_new ::
  "('h \<Rightarrow> 'o \<times> 'h) \<Rightarrow> ('o \<Rightarrow> 'h \<Rightarrow> 'h) option \<Rightarrow> nat \<Rightarrow> 'h \<Rightarrow> ('o, 'h) ObjectPool \<times> 'h" where
  "ObjectPool_new cf rf initialSize h =
     ObjectPool_prepopulate initialSize \<lparr>createFn = cf, resetFn = rf, pool = []\<rparr> h"

definition ObjectPool_get ::
  "('o, 'h) ObjectPool \<Rightarrow> 'h \<Rightarrow> 'o \<times> ('o, 'h) ObjectPool \<times> 'h" where
  "ObjectPool_get p h =
     (if length (pool p) > 0 then (last (pool p), p\<lparr>pool := butlast (pool p)\<rparr>, h)
      else (case createFn p h of (ob, h') \<Rightarrow> (ob, p, h')))"

definition ObjectPool_release ::
  "'o \<Rightarrow> ('o, 'h) ObjectPool \<Rightarrow> 'h \<Rightarrow> ('o, 'h) ObjectPool \<times> 'h" where
  "ObjectPool_release ob p h =
     (let h' = (case resetFn p of Some rf \<Rightarrow> rf ob h | None \<Rightarrow> h)
      in (p\<lparr>pool := pool p @ [ob]\<rparr>, h'))"

definition ObjectPool_clear :: "('o, 'h) ObjectPool \<Rightarrow> ('o, 'h) ObjectPool" where
  "ObjectPool_clear p = p\<lparr>pool := []\<rparr>"

text \<open>
  The two array methods the managers use with a callback that has effects.  The
  callback takes the element and the state and returns the state it leaves;
  \<open>filter\<close> keeps the elements for which the callback answered \<open>true\<close>, in order.
\<close>

fun js_forEach :: "('a \<Rightarrow> 's \<Rightarrow> 's) \<Rightarrow> 'a list \<Rightarrow> 's \<Rightarrow> 's" where
  "js_forEach f [] s = s"
| "js_forEach f (a # as) s = js_forEach f as (f a s)"

fun js_filter :: "('a \<Rightarrow> 's \<Rightarrow> bool \<times> 's) \<Rightarrow> 'a list \<Rightarrow> 's \<Rightarrow> 'a list \<times> 's" where
  "js_filter f [] s = ([], s)"
| "js_filter f (a # as) s =
     (case f a s of
        (keep, s1) \<Rightarrow>
          (case js_filter f as s1 of
             (kept, s2) \<Rightarrow> ((if keep then a # kept else kept), s2)))"

section \<open>Strings of key events\<close>

text \<open>
  A string is a list of code units below 128 (ASCII), which is what the letter and
  digit keys deliver.  \<open>toLowerCase\<close> and \<open>toUpperCase\<close> change the 26 letters and
  nothing else; \<open>charCodeAt(0)\<close> is NaN (here \<open>None\<close>) on the empty string.
\<close>

definition js_toLowerCase :: "string \<Rightarrow> string" where
  "js_toLowerCase s =
     map (\<lambda>c. if 65 \<le> (of_char c :: nat) \<and> (of_char c :: nat) \<le> 90
              then char_of ((of_char c :: nat) + 32) else c) s"

definition js_toUpperCase :: "string \<Rightarrow> string" where
  "js_toUpperCase s =
     map (\<lambda>c. if 97 \<le> (of_char c :: nat) \<and> (of_char c :: nat) \<le> 122
              then char_of ((of_char c :: nat) - 32) else c) s"

definition js_charCodeAt0 :: "string \<Rightarrow> int option" where
  "js_charCodeAt0 s = (case s of [] \<Rightarrow> None | c # _ \<Rightarrow> Some (int (of_char c)))"

text \<open>
  \<open>parseInt(s)\<close> without a radix: leading white space is skipped, a sign is read, a
  prefix \<open>0x\<close> or \<open>0X\<close> selects radix 16, and the longest run of digits of the radix
  is the value; NaN (here \<open>None\<close>) when that run is empty.
\<close>

definition js_isWhiteSpace :: "char \<Rightarrow> bool" where
  "js_isWhiteSpace c = ((of_char c :: nat) \<in> {9, 10, 11, 12, 13, 32})"

definition js_digitValue :: "char \<Rightarrow> int option" where
  "js_digitValue c =
     (let n = (of_char c :: nat) in
      if 48 \<le> n \<and> n \<le> 57 then Some (int n - 48)
      else if 97 \<le> n \<and> n \<le> 122 then Some (int n - 87)
      else if 65 \<le> n \<and> n \<le> 90 then Some (int n - 55)
      else None)"

definition js_isDigitOf :: "int \<Rightarrow> char \<Rightarrow> bool" where
  "js_isDigitOf radix c = (case js_digitValue c of None \<Rightarrow> False | Some d \<Rightarrow> d < radix)"

definition js_parseInt :: "string \<Rightarrow> int option" where
  "js_parseInt s =
     (let s1 = dropWhile js_isWhiteSpace s;
          neg = (s1 \<noteq> [] \<and> hd s1 = CHR ''-'');
          s2 = (if s1 \<noteq> [] \<and> (hd s1 = CHR ''-'' \<or> hd s1 = CHR ''+'') then tl s1 else s1);
          hex = (length s2 \<ge> 2 \<and> hd s2 = CHR ''0'' \<and> (s2 ! 1 = CHR ''x'' \<or> s2 ! 1 = CHR ''X''));
          radix = (if hex then 16 else 10);
          s3 = (if hex then drop 2 s2 else s2);
          ds = takeWhile (js_isDigitOf radix) s3;
          n = foldl (\<lambda>a c. a * radix + the (js_digitValue c)) 0 ds
      in if ds = [] then None else Some (if neg then - n else n))"

section \<open>Shapes\<close>

text \<open>
  The fields of the class \<open>Shape\<close>, with the prefix \<open>s_\<close>.  A colour and a shape type
  are strings that may be \<open>undefined\<close> (an array read out of range), hence options.
\<close>

record Sparkle =
  sp_x :: real
  sp_y :: real
  sp_size :: real
  sp_rotation :: real
  sp_speed :: real

record Shape =
  s_x :: real
  s_y :: real
  s_size :: real
  s_maxSize :: real
  s_color :: "string option"
  s_type :: "string option"
  s_rotation :: real
  s_rotationSpeed :: real
  s_createdAt :: real
  s_lifespan :: real
  s_fadeOutStart :: real
  s_scaleAnimation :: real
  s_isActive :: bool
  s_effect :: string
  s_initialScale :: real
  s_targetScale :: real
  s_bounceHeight :: real
  s_bounceSpeed :: real
  s_pulsePeriod :: real
  s_sparkles :: "Sparkle list"
  s_trails :: "unit list"

definition Shape_reset :: "Shape \<Rightarrow> Shape" where
  "Shape_reset s =
     s\<lparr>s_x := 0, s_y := 0, s_size := 0, s_maxSize := 0,
       s_color := Some ''#FF6B6B'', s_type := Some ''circle'',
       s_rotation := 0, s_rotationSpeed := 0, s_createdAt := 0,
       s_lifespan := CONFIG_shapes_animationDuration,
       s_fadeOutStart := CONFIG_shapes_animationDuration - CONFIG_shapes_fadeOutDuration,
       s_scaleAnimation := 0, s_isActive := False, s_effect := ''normal'',
       s_initialScale := 0, s_targetScale := 1, s_bounceHeight := 0, s_bounceSpeed := 0,
       s_pulsePeriod := 0, s_sparkles := [], s_trails := []\<rparr>"

text \<open>\<open>new Shape()\<close>: the constructor resets an object that has no field yet.\<close>

definition Shape_new :: Shape where
  "Shape_new =
     Shape_reset
       \<lparr>s_x = 0, s_y = 0, s_size = 0, s_maxSize = 0, s_color = None, s_type = None,
        s_rotation = 0, s_rotationSpeed = 0, s_createdAt = 0, s_lifespan = 0,
        s_fadeOutStart = 0, s_scaleAnimation = 0, s_isActive = False, s_effect = [],
        s_initialScale = 0, s_targetScale = 0, s_bounceHeight = 0, s_bounceSpeed = 0,
        s_pulsePeriod = 0, s_sparkles = [], s_trails = []\<rparr>"

text \<open>The loop of \<open>initSparkles\<close>: five draws for each sparkle, in the order of the fields.\<close>

fun initSparkles_loop :: "nat \<Rightarrow> Shape \<Rightarrow> rng \<Rightarrow> Shape \<times> rng" where
  "initSparkles_loop 0 s r = (s, r)"
| "initSparkles_loop (Suc n) s r =
     (let sparkle =
            \<lparr>sp_x = randomBetween (r 0) (- s_maxSize s * 0.5) (s_maxSize s * 0.5),
             sp_y = randomBetween (r 1) (- s_maxSize s * 0.5) (s_maxSize s * 0.5),
             sp_size = randomBetween (r 2) 2 6,
             sp_rotation = randomBetween (r 3) 0 (pi * 2),
             sp_speed = randomBetween (r 4) 0.005 0.015\<rparr>
      in initSparkles_loop n (s\<lparr>s_sparkles := s_sparkles s @ [sparkle]\<rparr>)
           (\<lambda>k. r (k + 5)))"

definition initSparkles :: "Shape \<Rightarrow> rng \<Rightarrow> Shape \<times> rng" where
  "initSparkles s r =
     (let sparkleCount = randomIntBetween (rng_head r) 5 10
      in initSparkles_loop (nat sparkleCount) s (rng_tail r))"

definition initEffect :: "Shape \<Rightarrow> rng \<Rightarrow> Shape \<times> rng" where
  "initEffect s r =
     (let (s1, r1) =
        (if s_effect s = ''explosion'' then
           (s\<lparr>s_lifespan := CONFIG_shapes_animationDuration * 1.5,
              s_maxSize := s_maxSize s * 1.5,
              s_rotationSpeed := s_rotationSpeed s * 1.5\<rparr>, r)
         else if s_effect s = ''fireworks'' then
           (s\<lparr>s_lifespan := CONFIG_shapes_animationDuration * 2,
              s_maxSize := s_maxSize s * 0.8,
              s_pulsePeriod := 500\<rparr>, r)
         else if s_effect s = ''sparkle'' then
           initSparkles (s\<lparr>s_lifespan := CONFIG_shapes_animationDuration * 1.2\<rparr>) r
         else if s_effect s = ''rainbow'' then
           (s\<lparr>s_lifespan := CONFIG_shapes_animationDuration * 1.3,
              s_maxSize := s_maxSize s * 1.2\<rparr>, r)
         else if s_effect s = ''star'' then
           (s\<lparr>s_bounceHeight := randomBetween (rng_head r) 20 40,
              s_bounceSpeed := randomBetween (rng_head (rng_tail r)) 0.05 0.1\<rparr>,
            rng_tail (rng_tail r))
         else (s, r))
      in (s1\<lparr>s_fadeOutStart := s_lifespan s1 - CONFIG_shapes_fadeOutDuration\<rparr>, r1))"

definition Shape_init ::
  "real \<Rightarrow> real \<Rightarrow> string option \<Rightarrow> string option \<Rightarrow> string \<Rightarrow> real \<Rightarrow> rng \<Rightarrow> Shape
     \<Rightarrow> Shape \<times> rng" where
  "Shape_init px py ty color effect now r s =
     (let s1 = (Shape_reset s)
                 \<lparr>s_x := px, s_y := py, s_type := ty, s_color := color, s_effect := effect,
                  s_createdAt := now, s_isActive := True\<rparr>;
          s2 = s1\<lparr>s_maxSize := randomBetween (r 0) CONFIG_shapes_minSize CONFIG_shapes_maxSize,
                  s_size := 0\<rparr>;
          s3 = s2\<lparr>s_rotation := randomBetween (r 1) 0 (pi * 2),
                  s_rotationSpeed := randomBetween (r 2) (- 0.005) 0.005\<rparr>
      in initEffect s3 (\<lambda>k. r (k + 3)))"

definition updateEffect :: "real \<Rightarrow> real \<Rightarrow> real \<Rightarrow> Shape \<Rightarrow> Shape" where
  "updateEffect age progress deltaTime s =
     (if s_effect s = ''explosion'' then
        (if progress < 0.2 then s\<lparr>s_size := s_maxSize s * easeBounce (progress * 5)\<rparr> else s)
      else if s_effect s = ''fireworks'' then
        (if s_pulsePeriod s > 0 then
           (let pulsePhase = js_rem age (s_pulsePeriod s) / s_pulsePeriod s;
                pulse = 1 + sin (pulsePhase * pi * 2) * 0.3
            in s\<lparr>s_size := s_maxSize s * pulse\<rparr>)
         else s)
      else if s_effect s = ''sparkle'' then
        s\<lparr>s_sparkles :=
            map (\<lambda>sparkle. sparkle\<lparr>sp_rotation := sp_rotation sparkle + sp_speed sparkle * deltaTime\<rparr>)
              (s_sparkles s)\<rparr>
      else if s_effect s = ''star'' then
        (if s_bounceHeight s > 0 then
           (let bouncePhase = sin (age * s_bounceSpeed s)
            in s\<lparr>s_y := s_y s + bouncePhase * s_bounceHeight s * 0.01\<rparr>)
         else s)
      else s)"

text \<open>\<open>Shape.update\<close> returns the shape as it leaves it and whether it is still alive.\<close>

definition Shape_update :: "real \<Rightarrow> real \<Rightarrow> Shape \<Rightarrow> Shape \<times> bool" where
  "Shape_update deltaTime now s =
     (if \<not> s_isActive s then (s, False)
      else
        (let age = now - s_createdAt s;
             progress = min (age / s_lifespan s) 1;
             s1 = s\<lparr>s_rotation := s_rotation s + s_rotationSpeed s * deltaTime\<rparr>;
             s2 = (if age < s_lifespan s1 * 0.3
                   then s1\<lparr>s_size := s_maxSize s1 * easeOut (age / (s_lifespan s1 * 0.3))\<rparr>
                   else s1\<lparr>s_size := s_maxSize s1\<rparr>);
             s3 = updateEffect age progress deltaTime s2
         in if progress \<ge> 1 then (s3\<lparr>s_isActive := False\<rparr>, False) else (s3, True)))"

section \<open>The shape manager\<close>

text \<open>
  The canvas as the managers read it: its \<open>width\<close> and \<open>height\<close> attributes and the
  size of its bounding rectangle.
\<close>

record Canvas =
  cv_width :: real
  cv_height :: real
  cv_rect_width :: real
  cv_rect_height :: real

text \<open>
  The key information a key press carries, as far as the managers read it.
  \<open>character\<close> is set for letters and digits only, \<open>effect\<close> may be missing.
\<close>

record KeyInfo =
  ki_type :: string
  ki_character :: "string option"
  ki_effect :: "string option"

datatype js_error = TypeError

text \<open>
  The store of the shapes is a list: an address is a position in it, and \<open>new Shape()\<close>
  appends.  \<open>shapes\<close> is the live collection in insertion order (oldest first).
\<close>

record ShapeManager =
  sm_canvas :: Canvas
  shapes :: "nat list"
  shapePool :: "(nat, Shape list) ObjectPool"
  shapeHeap :: "Shape list"

definition shape_createFn :: "Shape list \<Rightarrow> nat \<times> Shape list" where
  "shape_createFn h = (length h, h @ [Shape_new])"

definition shape_resetFn :: "nat \<Rightarrow> Shape list \<Rightarrow> Shape list" where
  "shape_resetFn a h = h[a := Shape_reset (h ! a)]"

definition ShapeManager_new :: "Canvas \<Rightarrow> ShapeManager" where
  "ShapeManager_new canvas =
     (case ObjectPool_new shape_createFn (Some shape_resetFn) 10 [] of
        (p, h) \<Rightarrow> \<lparr>sm_canvas = canvas, shapes = [], shapePool = p, shapeHeap = h\<rparr>)"

text \<open>
  \<open>getShapeType\<close>.  Reading \<open>character\<close> of a letter key that has none throws a
  TypeError; only the default branch draws a random number.
\<close>

definition getShapeType :: "KeyInfo \<Rightarrow> rng \<Rightarrow> (js_error + string option) \<times> rng" where
  "getShapeType keyInfo r =
     (if ki_type keyInfo = ''letter'' then
        (case ki_character keyInfo of
           None \<Rightarrow> (Inl TypeError, r)
         | Some ch \<Rightarrow>
             (let letterIndex = map_option (\<lambda>c. c - 97) (js_charCodeAt0 (js_toLowerCase ch))
              in if ch = js_toUpperCase ch then (Inr (Some ''star''), r)
                 else (Inr (case letterIndex of
                              None \<Rightarrow> None
                            | Some i \<Rightarrow>
                                js_index CONFIG_shapes_types
                                  (js_rem_int i (int (length CONFIG_shapes_types)))), r)))
      else if ki_type keyInfo = ''number'' then
        (let num = (case ki_character keyInfo of
                      None \<Rightarrow> 0
                    | Some ch \<Rightarrow> (case js_parseInt ch of None \<Rightarrow> 0 | Some n \<Rightarrow> n))
         in (Inr (js_index CONFIG_shapes_types
                    (js_rem_int num (int (length CONFIG_shapes_types)))), r))
      else if ki_type keyInfo = ''space'' then (Inr (Some ''heart''), r)
      else if ki_type keyInfo = ''enter'' then (Inr (Some ''star''), r)
      else if ki_type keyInfo = ''arrow'' then (Inr (Some ''triangle''), r)
      else
        (Inr (js_index CONFIG_shapes_types
                \<lfloor>rng_head r * real (length CONFIG_shapes_types)\<rfloor>), rng_tail r))"

text \<open>
  \<open>createShape\<close>: position, pooled instance, shape type, colour, effect,
  initialisation, push, and the eviction of the oldest shape above the limit.  When
  \<open>getShapeType\<close> throws, the instance has already left the pool and nothing else
  has happened.
\<close>

definition createShape ::
  "KeyInfo \<Rightarrow> real \<Rightarrow> rng \<Rightarrow> ShapeManager \<Rightarrow> (js_error + nat) \<times> rng \<times> ShapeManager" where
  "createShape keyInfo now r sm =
     (case getRandomPosition (cv_rect_width (sm_canvas sm)) (cv_rect_height (sm_canvas sm))
             CONFIG_shapes_maxSize r of
        (position, r1) \<Rightarrow>
     (case ObjectPool_get (shapePool sm) (shapeHeap sm) of
        (shape, p1, h1) \<Rightarrow>
     (case getShapeType keyInfo r1 of
        (Inl e, r2) \<Rightarrow> (Inl e, r2, sm\<lparr>shapePool := p1, shapeHeap := h1\<rparr>)
      | (Inr shapeType, r2) \<Rightarrow>
     (case getRandomColor r2 of
        (color, r3) \<Rightarrow>
     (let effect = (case ki_effect keyInfo of
                      None \<Rightarrow> ''normal''
                    | Some e \<Rightarrow> if e = [] then ''normal'' else e)
      in
     (case Shape_init (fst position) (snd position) shapeType color effect now r3 (h1 ! shape) of
        (s', r4) \<Rightarrow>
     (let h2 = h1[shape := s'];
          shapes1 = shapes sm @ [shape]
      in if length shapes1 > CONFIG_shapes_maxActiveShapes then
           (case ObjectPool_release (hd shapes1) p1 h2 of
              (p2, h3) \<Rightarrow>
                (Inr shape, r4, sm\<lparr>shapes := tl shapes1, shapePool := p2, shapeHeap := h3\<rparr>))
         else (Inr shape, r4, sm\<lparr>shapes := shapes1, shapePool := p1, shapeHeap := h2\<rparr>))))))))"

text \<open>The callback of the filter in \<open>ShapeManager.update\<close>, on the pool and the store.\<close>

definition ShapeManager_update_cb ::
  "real \<Rightarrow> real \<Rightarrow> nat \<Rightarrow> (nat, Shape list) ObjectPool \<times> Shape list
     \<Rightarrow> bool \<times> (nat, Shape list) ObjectPool \<times> Shape list" where
  "ShapeManager_update_cb deltaTime now shape st =
     (case st of (p, h) \<Rightarrow>
        (case Shape_update deltaTime now (h ! shape) of
           (s', isActive) \<Rightarrow>
             (let h1 = h[shape := s']
              in (isActive, if \<not> isActive then ObjectPool_release shape p h1 else (p, h1)))))"

definition ShapeManager_update :: "real \<Rightarrow> real \<Rightarrow> ShapeManager \<Rightarrow> ShapeManager" where
  "ShapeManager_update deltaTime now sm =
     (case js_filter (ShapeManager_update_cb deltaTime now) (shapes sm)
             (shapePool sm, shapeHeap sm) of
        (kept, p, h) \<Rightarrow> sm\<lparr>shapes := kept, shapePool := p, shapeHeap := h\<rparr>)"

definition ShapeManager_clear :: "ShapeManager \<Rightarrow> ShapeManager" where
  "ShapeManager_clear sm =
     (case js_forEach (\<lambda>shape (p, h). ObjectPool_release shape p h) (shapes sm)
             (shapePool sm, shapeHeap sm) of
        (p, h) \<Rightarrow> sm\<lparr>shapes := [], shapePool := p, shapeHeap := h\<rparr>)"

text \<open>A sequence of spawn calls, each with its key, its clock reading; the draws run on.\<close>

fun createShapes :: "(KeyInfo \<times> real) list \<Rightarrow> rng \<Rightarrow> ShapeManager \<Rightarrow> ShapeManager" where
  "createShapes [] r sm = sm"
| "createShapes ((keyInfo, now) # ks) r sm =
     (case createShape keyInfo now r sm of (res, r', sm') \<Rightarrow> createShapes ks r' sm')"

section \<open>Particles\<close>

text \<open>
  The fields of the class \<open>Particle\<close>, with the prefix \<open>p_\<close>.  The colour is the hex
  string of \<open>reset\<close> or the four numbers \<open>updateColor\<close> prints into an \<open>hsla(...)\<close>
  string.
\<close>

datatype Color = HexColor string | Hsla real real real real

record Particle =
  p_x :: real
  p_y :: real
  p_vx :: real
  p_vy :: real
  p_size :: real
  p_maxSize :: real
  p_color :: Color
  p_alpha :: real
  p_life :: real
  p_maxLife :: real
  p_decay :: real
  p_gravity :: real
  p_friction :: real
  p_isActive :: bool
  p_hue :: real
  p_saturation :: real
  p_lightness :: real
  p_rotationSpeed :: real
  p_rotation :: real
  p_type :: string

text \<open>The options object of \<open>Particle.init\<close>; each property may be missing.\<close>

record ParticleOptions =
  po_type :: "string option"
  po_isClickParticle :: "bool option"
  po_burstIntensity :: "real option"

definition Particle_reset :: "Particle \<Rightarrow> Particle" where
  "Particle_reset p =
     p\<lparr>p_x := 0, p_y := 0, p_vx := 0, p_vy := 0, p_size := 0, p_maxSize := 0,
       p_color := HexColor ''#FF6B6B'', p_alpha := 1, p_life := 1, p_maxLife := 1,
       p_decay := 0.02, p_gravity := 0, p_friction := 0.98, p_isActive := False,
       p_hue := 0, p_saturation := 70, p_lightness := 60, p_rotationSpeed := 0,
       p_rotation := 0, p_type := ''circle''\<rparr>"

definition Particle_new :: Particle where
  "Particle_new =
     Particle_reset
       \<lparr>p_x = 0, p_y = 0, p_vx = 0, p_vy = 0, p_size = 0, p_maxSize = 0,
        p_color = HexColor [], p_alpha = 0, p_life = 0, p_maxLife = 0, p_decay = 0,
        p_gravity = 0, p_friction = 0, p_isActive = False, p_hue = 0, p_saturation = 0,
        p_lightness = 0, p_rotationSpeed = 0, p_rotation = 0, p_type = []\<rparr>"

definition updateColor :: "Particle \<Rightarrow> Particle" where
  "updateColor p = p\<lparr>p_color := Hsla (p_hue p) (p_saturation p) (p_lightness p) (p_alpha p)\<rparr>"

text \<open>
  \<open>Particle.init\<close> makes eight draws: life, size, two for the velocity, gravity,
  friction, hue and rotation speed.
\<close>

definition Particle_init ::
  "real \<Rightarrow> real \<Rightarrow> ParticleOptions \<Rightarrow> rng \<Rightarrow> Particle \<Rightarrow> Particle \<times> rng" where
  "Particle_init px py options r p =
     (let p1 = (Particle_reset p)\<lparr>p_x := px, p_y := py, p_isActive := True\<rparr>;
          p2 = p1\<lparr>p_type := (case po_type options of
                                None \<Rightarrow> ''circle''
                              | Some t \<Rightarrow> if t = [] then ''circle'' else t)\<rparr>;
          isClickParticle = (case po_isClickParticle options of None \<Rightarrow> False | Some b \<Rightarrow> b);
          burstIntensity = (case po_burstIntensity options of
                              None \<Rightarrow> 1
                            | Some b \<Rightarrow> if b = 0 then 1 else b);
          p3 = (if isClickParticle
                then p2\<lparr>p_maxLife := randomBetween (r 0) 2000 6000,
                        p_maxSize := randomBetween (r 1) CONFIG_particles_maxSize
                                       (CONFIG_particles_maxSize * 2.5)\<rparr>
                else p2\<lparr>p_maxLife := randomBetween (r 0) 1000 4000,
                        p_maxSize := randomBetween (r 1) CONFIG_particles_minSize
                                       CONFIG_particles_maxSize\<rparr>);
          p4 = p3\<lparr>p_life := p_maxLife p3, p_size := 0\<rparr>;
          p5 = (if isClickParticle
                then (let angle = randomBetween (r 2) 0 (pi * 2);
                          speed = randomBetween (r 3) 3 10 * burstIntensity
                      in p4\<lparr>p_vx := cos angle * speed, p_vy := sin angle * speed\<rparr>)
                else p4\<lparr>p_vx := randomBetween (r 2) (- 1) 1,
                        p_vy := randomBetween (r 3) (- 2) 0.5\<rparr>);
          p6 = p5\<lparr>p_gravity := (if isClickParticle then randomBetween (r 4) 0.02 0.08
                                 else randomBetween (r 4) 0.05 0.15),
                  p_friction := randomBetween (r 5) 0.95 0.99\<rparr>;
          p7 = p6\<lparr>p_hue := randomBetween (r 6) 0 360,
                  p_rotationSpeed := randomBetween (r 7) (- 0.15) 0.15\<rparr>;
          p8 = (if isClickParticle then p7\<lparr>p_rotationSpeed := p_rotationSpeed p7 * 2\<rparr> else p7)
      in (updateColor p8, (\<lambda>k. r (k + 8))))"

text \<open>
  \<open>Particle.update\<close> returns the particle as it leaves it and whether it is alive.
  Each bound name is the value one assignment of the source gives to the field of that
  name, in the order of the source; \<open>vy1\<close> is \<open>vy\<close> after gravity and \<open>vy2\<close> after
  friction.
\<close>

definition Particle_update :: "real \<Rightarrow> Particle \<Rightarrow> Particle \<times> bool" where
  "Particle_update deltaTime p =
     (if \<not> p_isActive p then (p, False)
      else
        (let x1 = p_x p + p_vx p * deltaTime * 0.06;
             y1 = p_y p + p_vy p * deltaTime * 0.06;
             vy1 = p_vy p + p_gravity p * deltaTime * 0.06;
             vx2 = p_vx p * p_friction p;
             vy2 = vy1 * p_friction p;
             rotation1 = p_rotation p + p_rotationSpeed p * deltaTime * 0.1;
             life1 = p_life p - deltaTime;
             lifeProgress = 1 - max 0 (life1 / p_maxLife p);
             size1 = (if lifeProgress < 0.15
                      then p_maxSize p * easeOut (lifeProgress / 0.15)
                      else if lifeProgress > 0.85
                      then (let shrinkProgress = (lifeProgress - 0.85) / 0.15
                            in p_maxSize p * (1 - easeOut shrinkProgress))
                      else p_maxSize p);
             alpha1 = max 0 (life1 / p_maxLife p);
             hue1 = js_rem (p_hue p + deltaTime * 0.05) 360;
             q = updateColor
                   (p\<lparr>p_x := x1, p_y := y1, p_vx := vx2, p_vy := vy2, p_rotation := rotation1,
                      p_life := life1, p_size := size1, p_alpha := alpha1, p_hue := hue1\<rparr>)
         in if life1 \<le> 0 \<or> size1 \<le> 0
            then (q\<lparr>p_isActive := False\<rparr>, False)
            else (q, True)))"

text \<open>
  The physics step as the specification words it, for a scale constant \<open>k\<close>: gravity
  first, then friction, then the position from the new velocity.  It is compared with
  \<open>Particle_update\<close> below.
\<close>

definition Particle_physics_spec :: "real \<Rightarrow> real \<Rightarrow> Particle \<Rightarrow> Particle" where
  "Particle_physics_spec k dt p =
     (let p1 = p\<lparr>p_vy := p_vy p + p_gravity p * dt * k\<rparr>;
          p2 = p1\<lparr>p_vx := p_vx p1 * p_friction p1\<rparr>;
          p3 = p2\<lparr>p_vy := p_vy p2 * p_friction p2\<rparr>;
          p4 = p3\<lparr>p_x := p_x p3 + p_vx p3 * dt * k\<rparr>;
          p5 = p4\<lparr>p_y := p_y p4 + p_vy p4 * dt * k\<rparr>
      in p5)"

section \<open>The particle system\<close>

text \<open>
  As for the shapes, the store of the particles is a list and an address a position in
  it.  \<open>particles\<close> is the live collection in insertion order (oldest first).
\<close>

record ParticleSystem =
  ps_canvas :: Canvas
  particles :: "nat list"
  particlePool :: "(nat, Particle list) ObjectPool"
  particleHeap :: "Particle list"
  mouseX :: real
  mouseY :: real
  constantEmitRate :: real
  lastConstantEmitTime :: real
  constantParticleTypes :: "string list"
  maxClickParticles :: real

definition particle_createFn :: "Particle list \<Rightarrow> nat \<times> Particle list" where
  "particle_createFn h = (length h, h @ [Particle_new])"

definition particle_resetFn :: "nat \<Rightarrow> Particle list \<Rightarrow> Particle list" where
  "particle_resetFn a h = h[a := Particle_reset (h ! a)]"

definition ParticleSystem_new :: "Canvas \<Rightarrow> ParticleSystem" where
  "ParticleSystem_new canvas =
     (case ObjectPool_new particle_createFn (Some particle_resetFn) 50 [] of
        (p, h) \<Rightarrow>
          \<lparr>ps_canvas = canvas, particles = [], particlePool = p, particleHeap = h,
           mouseX = cv_width canvas / 2, mouseY = cv_height canvas / 2,
           constantEmitRate = 120, lastConstantEmitTime = 0,
           constantParticleTypes = [''circle'', ''sparkle''], maxClickParticles = 20\<rparr>)"

text \<open>The body of the capacity branch of \<open>createParticle\<close>: \<open>shift\<close>, then \<open>release\<close>.\<close>

definition removeOldestParticle :: "ParticleSystem \<Rightarrow> ParticleSystem" where
  "removeOldestParticle ps =
     (case ObjectPool_release (hd (particles ps)) (particlePool ps) (particleHeap ps) of
        (p, h) \<Rightarrow> ps\<lparr>particles := tl (particles ps), particlePool := p, particleHeap := h\<rparr>)"

definition createParticle ::
  "real \<Rightarrow> real \<Rightarrow> ParticleOptions \<Rightarrow> rng \<Rightarrow> ParticleSystem \<Rightarrow> nat \<times> rng \<times> ParticleSystem" where
  "createParticle px py options r ps =
     (let ps1 = (if length (particles ps) \<ge> CONFIG_particles_maxActiveParticles
                 then removeOldestParticle ps else ps)
      in
     (case ObjectPool_get (particlePool ps1) (particleHeap ps1) of
        (particle, p1, h1) \<Rightarrow>
     (case Particle_init px py options r (h1 ! particle) of
        (q, r1) \<Rightarrow>
          (particle, r1,
           ps1\<lparr>particles := particles ps1 @ [particle], particlePool := p1,
               particleHeap := h1[particle := q]\<rparr>))))"






text \<open>
  The loop of \<open>createConstantParticles\<close>.  Each round draws the angle, the distance
  and the particle type, and then the eight draws of the initialisation.
\<close>

fun createConstantParticles_loop :: "nat \<Rightarrow> rng \<Rightarrow> ParticleSystem \<Rightarrow> rng \<times> ParticleSystem" where
  "createConstantParticles_loop 0 r ps = (r, ps)"
| "createConstantParticles_loop (Suc n) r ps =
     (let angle = randomBetween (r 0) 0 (pi * 2);
          distance = randomBetween (r 1) 10 50;
          x = mouseX ps + cos angle * distance;
          y = mouseY ps + sin angle * distance;
          clampedX = max 0 (min x (cv_width (ps_canvas ps)));
          clampedY = max 0 (min y (cv_height (ps_canvas ps)));
          ty = js_index (constantParticleTypes ps)
                 \<lfloor>r 2 * real (length (constantParticleTypes ps))\<rfloor>
      in (case createParticle clampedX clampedY
                 \<lparr>po_type = ty, po_isClickParticle = Some False, po_burstIntensity = None\<rparr>
                 (\<lambda>k. r (k + 3)) ps of
            (particle, r1, ps1) \<Rightarrow> createConstantParticles_loop n r1 ps1))"

definition createConstantParticles :: "real \<Rightarrow> rng \<Rightarrow> ParticleSystem \<Rightarrow> rng \<times> ParticleSystem" where
  "createConstantParticles now r ps =
     (if now - lastConstantEmitTime ps < constantEmitRate ps then (r, ps)
      else
        (let ps1 = ps\<lparr>lastConstantEmitTime := now\<rparr>;
             particleCount = randomIntBetween (rng_head r) 1 3
         in createConstantParticles_loop (nat particleCount) (rng_tail r) ps1))"

fun createClickEffect_loop ::
  "nat \<Rightarrow> real \<Rightarrow> real \<Rightarrow> real \<Rightarrow> string list \<Rightarrow> rng \<Rightarrow> ParticleSystem
     \<Rightarrow> rng \<times> ParticleSystem" where
  "createClickEffect_loop 0 px py effectIntensity particleTypes r ps = (r, ps)"
| "createClickEffect_loop (Suc n) px py effectIntensity particleTypes r ps =
     (let particleType = js_index particleTypes \<lfloor>r 0 * real (length particleTypes)\<rfloor>
      in (case createParticle px py
                 \<lparr>po_type = particleType, po_isClickParticle = Some True,
                  po_burstIntensity = Some effectIntensity\<rparr>
                 (\<lambda>k. r (k + 1)) ps of
            (particle, r1, ps1) \<Rightarrow>
              createClickEffect_loop n px py effectIntensity particleTypes r1 ps1))"

text \<open>\<open>createClickEffect\<close>; \<open>button\<close> is the number of the mouse button of the event.\<close>

definition createClickEffect ::
  "real \<Rightarrow> real \<Rightarrow> int \<Rightarrow> rng \<Rightarrow> ParticleSystem \<Rightarrow> rng \<times> ParticleSystem" where
  "createClickEffect px py button r ps =
     (let (effectIntensity, particleTypes) =
            (if button = 0 then (1.5, [''star'', ''heart''])
             else if button = 1 then (2, [''sparkle'', ''star''])
             else if button = 2 then (2.5, [''heart'', ''star'', ''sparkle''])
             else (1, [''star'', ''heart'', ''sparkle'']));
          particleCount = \<lfloor>maxClickParticles ps * effectIntensity\<rfloor>
      in createClickEffect_loop (nat particleCount) px py effectIntensity particleTypes r ps)"

text \<open>
  The loop of \<open>createBurst\<close>; \<open>n\<close> rounds are left and \<open>i\<close> is the loop counter.  At
  capacity the loop breaks.  The third argument of \<open>init\<close> is a string there, which has
  none of the properties \<open>init\<close> reads, so every option is missing.  After \<open>init\<close>
  the round draws the speed, the factor of the size and the hue.
\<close>

fun createBurst_loop ::
  "nat \<Rightarrow> nat \<Rightarrow> nat \<Rightarrow> real \<Rightarrow> real \<Rightarrow> rng \<Rightarrow> ParticleSystem \<Rightarrow> rng \<times> ParticleSystem" where
  "createBurst_loop 0 i count px py r ps = (r, ps)"
| "createBurst_loop (Suc n) i count px py r ps =
     (if length (particles ps) \<ge> CONFIG_particles_maxActiveParticles then (r, ps)
      else
     (case ObjectPool_get (particlePool ps) (particleHeap ps) of
        (particle, p1, h1) \<Rightarrow>
     (case Particle_init px py
             \<lparr>po_type = None, po_isClickParticle = None, po_burstIntensity = None\<rparr>
             r (h1 ! particle) of
        (q, r1) \<Rightarrow>
          (let angle = (real i / real count) * pi * 2;
               speed = randomBetween (r1 0) 3 8;
               q1 = q\<lparr>p_vx := cos angle * speed, p_vy := sin angle * speed\<rparr>;
               q2 = q1\<lparr>p_maxSize := p_maxSize q1 * randomBetween (r1 1) 0.8 1.5,
                       p_hue := randomBetween (r1 2) 0 360\<rparr>;
               ps1 = ps\<lparr>particles := particles ps @ [particle], particlePool := p1,
                        particleHeap := h1[particle := q2]\<rparr>
           in createBurst_loop n (Suc i) count px py (\<lambda>k. r1 (k + 3)) ps1))))"

text \<open>
  \<open>createBurst\<close>.  It first calls \<open>getRandomColors(3)\<close>, whose result it does not use;
  that call shuffles with a sort whose comparator draws one random number per
  comparison, and \<open>sortDraws\<close> is the number of comparisons the sort of the engine
  makes.
\<close>

definition createBurst ::
  "real \<Rightarrow> real \<Rightarrow> nat \<Rightarrow> nat \<Rightarrow> rng \<Rightarrow> ParticleSystem \<Rightarrow> rng \<times> ParticleSystem" where
  "createBurst px py count sortDraws r ps =
     createBurst_loop count 0 count px py (\<lambda>k. r (k + sortDraws)) ps"

text \<open>The callbacks of the two filters of \<open>ParticleSystem.update\<close>.\<close>

definition ParticleSystem_update_cb ::
  "real \<Rightarrow> nat \<Rightarrow> (nat, Particle list) ObjectPool \<times> Particle list
     \<Rightarrow> bool \<times> (nat, Particle list) ObjectPool \<times> Particle list" where
  "ParticleSystem_update_cb deltaTime particle st =
     (case st of (p, h) \<Rightarrow>
        (case Particle_update deltaTime (h ! particle) of
           (q, isActive) \<Rightarrow>
             (let h1 = h[particle := q]
              in (isActive, if \<not> isActive then ObjectPool_release particle p h1 else (p, h1)))))"

definition offScreen :: "Canvas \<Rightarrow> Particle \<Rightarrow> bool" where
  "offScreen canvas q =
     (p_x q < - 100 \<or> p_x q > cv_width canvas + 100 \<or>
      p_y q < - 100 \<or> p_y q > cv_height canvas + 100)"

definition ParticleSystem_offScreen_cb ::
  "Canvas \<Rightarrow> nat \<Rightarrow> (nat, Particle list) ObjectPool \<times> Particle list
     \<Rightarrow> bool \<times> (nat, Particle list) ObjectPool \<times> Particle list" where
  "ParticleSystem_offScreen_cb canvas particle st =
     (case st of (p, h) \<Rightarrow>
        (if offScreen canvas (h ! particle) then (False, ObjectPool_release particle p h)
         else (True, (p, h))))"

definition ParticleSystem_update ::
  "real \<Rightarrow> real \<Rightarrow> rng \<Rightarrow> ParticleSystem \<Rightarrow> rng \<times> ParticleSystem" where
  "ParticleSystem_update deltaTime now r ps =
     (case createConstantParticles now r ps of
        (r1, ps1) \<Rightarrow>
     (case js_filter (ParticleSystem_update_cb deltaTime) (particles ps1)
             (particlePool ps1, particleHeap ps1) of
        (kept1, p1, h1) \<Rightarrow>
     (case js_filter (ParticleSystem_offScreen_cb (ps_canvas ps1)) kept1 (p1, h1) of
        (kept2, p2, h2) \<Rightarrow>
          (r1, ps1\<lparr>particles := kept2, particlePool := p2, particleHeap := h2\<rparr>))))"

definition ParticleSystem_clear :: "ParticleSystem \<Rightarrow> ParticleSystem" where
  "ParticleSystem_clear ps =
     (case js_forEach (\<lambda>particle (p, h). ObjectPool_release particle p h) (particles ps)
             (particlePool ps, particleHeap ps) of
        (p, h) \<Rightarrow> ps\<lparr>particles := [], particlePool := p, particleHeap := h\<rparr>)"

text \<open>
  The calls that spawn particles, and a sequence of them: \<open>createParticle\<close>,
  \<open>createBurst\<close> (with the number of draws of its shuffle), \<open>createClickEffect\<close> and
  \<open>createConstantParticles\<close> (with the clock reading).
\<close>

datatype ParticleSpawn =
    SpawnParticle real real ParticleOptions
  | SpawnBurst real real nat nat
  | SpawnClickEffect real real int
  | SpawnConstantParticles real

fun spawnParticle :: "ParticleSpawn \<Rightarrow> rng \<Rightarrow> ParticleSystem \<Rightarrow> rng \<times> ParticleSystem" where
  "spawnParticle (SpawnParticle px py options) r ps =
     (case createParticle px py options r ps of (particle, r', ps') \<Rightarrow> (r', ps'))"
| "spawnParticle (SpawnBurst px py count sortDraws) r ps = createBurst px py count sortDraws r ps"
| "spawnParticle (SpawnClickEffect px py button) r ps = createClickEffect px py button r ps"
| "spawnParticle (SpawnConstantParticles now) r ps = createConstantParticles now r ps"

fun spawnParticles :: "ParticleSpawn list \<Rightarrow> rng \<Rightarrow> ParticleSystem \<Rightarrow> ParticleSystem" where
  "spawnParticles [] r ps = ps"
| "spawnParticles (q # qs) r ps =
     (case spawnParticle q r ps of (r', ps') \<Rightarrow> spawnParticles qs r' ps')"

section \<open>The sound manager\<close>

text \<open>
  \<open>activeSounds\<close> is a set of sound ids, kept as the list of its members in insertion
  order; an id is the sound type, the audio clock and a random draw, which the source
  prints into one string.  \<open>audioContext\<close> says whether the context exists.  What the
  Web Audio graph does is the list of signals started: the oscillator of a sound, with
  its type, frequency, duration and peak volume.
\<close>

type_synonym SoundId = "string \<times> real \<times> real"

record Signal =
  sig_type :: string
  sig_frequency :: real
  sig_duration :: real
  sig_volume :: real

record SoundOptions =
  so_duration :: "real option"
  so_volume :: "real option"

record SoundManager =
  audioContext :: bool
  isEnabled :: bool
  volume :: real
  activeSounds :: "SoundId list"
  maxConcurrentSounds :: nat
  useWebAudio :: bool

text \<open>The state the constructor leaves before \<open>init\<close> has run.\<close>

definition SoundManager_new :: SoundManager where
  "SoundManager_new =
     \<lparr>audioContext = False, isEnabled = True, volume = CONFIG_audio_volume,
      activeSounds = [], maxConcurrentSounds = CONFIG_audio_maxConcurrentSounds,
      useWebAudio = False\<rparr>"

text \<open>The table \<open>SOUND_TYPES\<close>: duration and volume of a sound type, if it is listed.\<close>

definition SOUND_TYPES :: "string \<Rightarrow> (real \<times> real) option" where
  "SOUND_TYPES t =
     (if t = ''note'' then Some (0.6, 0.7)
      else if t = ''chime'' then Some (1.2, 0.5)
      else if t = ''bell'' then Some (0.8, 0.6)
      else if t = ''toy'' then Some (0.4, 0.8)
      else if t = ''sparkle'' then Some (0.3, 0.4)
      else if t = ''explosion'' then Some (1.0, 0.9)
      else if t = ''fireworks'' then Some (1.5, 0.6)
      else None)"

definition Set_add :: "'a \<Rightarrow> 'a list \<Rightarrow> 'a list" where
  "Set_add a xs = (if a \<in> set xs then xs else xs @ [a])"

text \<open>
  \<open>playWebAudioSound\<close>.  \<open>now\<close> is \<open>audioContext.currentTime\<close>, \<open>u\<close> the draw of the
  sound id, and \<open>backendOk\<close> says whether the calls into the audio graph succeed: when
  one throws, the \<open>catch\<close> block logs the error, no signal has started and
  \<open>activeSounds\<close> is as before.
\<close>

definition playWebAudioSound ::
  "string \<Rightarrow> real \<Rightarrow> SoundOptions \<Rightarrow> real \<Rightarrow> real \<Rightarrow> bool \<Rightarrow> SoundManager
     \<Rightarrow> SoundManager \<times> Signal list" where
  "playWebAudioSound ty frequency options now u backendOk sm =
     (let soundConfig = (case SOUND_TYPES ty of None \<Rightarrow> (0.6, 0.7) | Some c \<Rightarrow> c);
          duration = (case so_duration options of
                        None \<Rightarrow> fst soundConfig
                      | Some d \<Rightarrow> if d = 0 then fst soundConfig else d);
          vol = (case so_volume options of
                   None \<Rightarrow> snd soundConfig
                 | Some v \<Rightarrow> if v = 0 then snd soundConfig else v) * volume sm
      in if backendOk then
           (sm\<lparr>activeSounds := Set_add (ty, now, u) (activeSounds sm)\<rparr>,
            [\<lparr>sig_type = ty, sig_frequency = frequency, sig_duration = duration,
              sig_volume = vol\<rparr>])
         else (sm, []))"

definition playFallbackSound ::
  "string \<Rightarrow> real \<Rightarrow> SoundOptions \<Rightarrow> SoundManager \<Rightarrow> SoundManager \<times> Signal list" where
  "playFallbackSound ty frequency options sm = (sm, [])"

definition playSound ::
  "string \<Rightarrow> real \<Rightarrow> SoundOptions \<Rightarrow> real \<Rightarrow> real \<Rightarrow> bool \<Rightarrow> SoundManager
     \<Rightarrow> SoundManager \<times> Signal list" where
  "playSound ty frequency options now u backendOk sm =
     (if \<not> isEnabled sm then (sm, [])
      else if length (activeSounds sm) \<ge> maxConcurrentSounds sm then (sm, [])
      else if useWebAudio sm \<and> audioContext sm
      then playWebAudioSound ty frequency options now u backendOk sm
      else playFallbackSound ty frequency options sm)"

section \<open>The frame driver\<close>

text \<open>
  The fields of the game the frame callback and the pause handlers read and write.
  \<open>parentControls\<close> is the controls panel: \<open>None\<close> when the element is missing, else
  whether it carries the class \<open>hidden\<close>.  \<open>gameLoop\<close> is the frame callback at the time
  stamp \<open>currentTime\<close>; its second result is the \<open>deltaTime\<close> it passes to \<open>update\<close>, or
  \<open>None\<close> when the frame returns early and updates nothing.
\<close>

record Game =
  isRunning :: bool
  isPaused :: bool
  lastFrameTime :: real
  parentControls :: "bool option"

definition CONFIG_performance_maxFrameTime :: real where
  "CONFIG_performance_maxFrameTime = 16.67"

definition gameLoop :: "real \<Rightarrow> Game \<Rightarrow> Game \<times> real option" where
  "gameLoop currentTime g =
     (if \<not> isRunning g \<or> isPaused g then (g, None)
      else (let deltaTime = currentTime - lastFrameTime g
            in (g\<lparr>lastFrameTime := currentTime\<rparr>, Some deltaTime)))"

text \<open>\<open>handleVisibilityChange\<close>; \<open>hidden\<close> is \<open>document.hidden\<close>.\<close>

definition handleVisibilityChange :: "bool \<Rightarrow> Game \<Rightarrow> Game" where
  "handleVisibilityChange hidden g =
     (if hidden then g\<lparr>isPaused := True\<rparr>
      else if isRunning g then g\<lparr>isPaused := False\<rparr>
      else g)"

definition toggleParentControls :: "Game \<Rightarrow> Game" where
  "toggleParentControls g =
     (case parentControls g of
        None \<Rightarrow> g
      | Some hidden \<Rightarrow>
          (let g1 = g\<lparr>parentControls := Some (\<not> hidden)\<rparr>;
               isVisible = (parentControls g1 \<noteq> Some True)
           in if isVisible then g1\<lparr>isPaused := True\<rparr> else g1\<lparr>isPaused := False\<rparr>))"

text \<open>The frames that arrive at the time stamps \<open>ts\<close>, in order.\<close>

fun gameLoops :: "real list \<Rightarrow> Game \<Rightarrow> Game \<times> real option list" where
  "gameLoops [] g = (g, [])"
| "gameLoops (t # ts) g =
     (case gameLoop t g of
        (g1, d) \<Rightarrow> (case gameLoops ts g1 of (g2, ds) \<Rightarrow> (g2, d # ds)))"

section \<open>Invariants of the pooled stores\<close>

text \<open>
  The ownership invariant of a pool and its manager: no address occurs twice among the
  live collection and the free-list together, and every address is one of the store.
  A manager is well formed when it holds and the pool has the functions the
  constructor gave it.
\<close>

definition pool_inv :: "nat list \<Rightarrow> nat list \<Rightarrow> nat \<Rightarrow> bool" where
  "pool_inv live free n = (distinct (live @ free) \<and> (\<forall>a \<in> set (live @ free). a < n))"

definition sm_wf :: "ShapeManager \<Rightarrow> bool" where
  "sm_wf sm =
     (createFn (shapePool sm) = shape_createFn \<and> resetFn (shapePool sm) = Some shape_resetFn \<and>
      pool_inv (shapes sm) (pool (shapePool sm)) (length (shapeHeap sm)))"

definition ps_wf :: "ParticleSystem \<Rightarrow> bool" where
  "ps_wf ps =
     (createFn (particlePool ps) = particle_createFn \<and>
      resetFn (particlePool ps) = Some particle_resetFn \<and>
      pool_inv (particles ps) (pool (particlePool ps)) (length (particleHeap ps)))"

text \<open>A particle lies within the canvas.\<close>

definition inCanvas :: "Canvas \<Rightarrow> Particle \<Rightarrow> bool" where
  "inCanvas canvas q =
     (0 \<le> p_x q \<and> p_x q \<le> cv_width canvas \<and> 0 \<le> p_y q \<and> p_y q \<le> cv_height canvas)"

section \<open>Theorems\<close>

text \<open>
  C10.  For every pool, store and instance \<open>ob\<close>: \<open>release\<close> applies the reset function of
  the pool (when it has one) to \<open>ob\<close> and pushes \<open>ob\<close> at the end of the free-list; a
  \<open>get\<close> that follows at once returns \<open>ob\<close> itself and leaves the pool exactly as it was
  before the release (the free-list is last-in-first-out), without touching the store;
  and \<open>get\<close> on an empty free-list returns the instance \<open>createFn\<close> makes, leaving the
  free-list empty.  \<open>get\<close> is a total function: it has a result on every pool.
\<close>

theorem ObjectPool_release_then_get:
  fixes p :: "('o, 'h) ObjectPool"
  shows "ObjectPool_release ob p h =
           (p\<lparr>pool := pool p @ [ob]\<rparr>, (case resetFn p of Some rf \<Rightarrow> rf ob h | None \<Rightarrow> h))
       \<and> ObjectPool_get (fst (ObjectPool_release ob p h)) (snd (ObjectPool_release ob p h)) =
           (ob, p, snd (ObjectPool_release ob p h))
       \<and> ObjectPool_get (p\<lparr>pool := []\<rparr>) h =
           (fst (createFn p h), p\<lparr>pool := []\<rparr>, snd (createFn p h))"
  by (simp add: ObjectPool_release_def ObjectPool_get_def Let_def split: prod.splits)

theorem ObjectPool_release_then_get_witness:
  "fst (ObjectPool_get
          (fst (ObjectPool_release 2
                  \<lparr>createFn = shape_createFn, resetFn = Some shape_resetFn, pool = [0, 1]\<rparr>
                  [Shape_new, Shape_new, Shape_new]))
          (snd (ObjectPool_release 2
                  \<lparr>createFn = shape_createFn, resetFn = Some shape_resetFn, pool = [0, 1]\<rparr>
                  [Shape_new, Shape_new, Shape_new]))) = (2::nat)
   \<and> fst (ObjectPool_get
          \<lparr>createFn = shape_createFn, resetFn = Some shape_resetFn, pool = []\<rparr>
          [Shape_new, Shape_new, Shape_new]) = 3"
  using ObjectPool_release_then_get
    [of 2 "\<lparr>createFn = shape_createFn, resetFn = Some shape_resetFn, pool = [0, 1]\<rparr>"
        "[Shape_new, Shape_new, Shape_new]"]
  by (simp add: shape_createFn_def ObjectPool_get_def)


subsection \<open>The frame driver while paused\<close>

lemma gameLoops_paused:
  "isPaused g \<Longrightarrow> gameLoops ts g = (g, map (\<lambda>t. None) ts)"
  by (induction ts) (simp_all add: gameLoop_def)

text \<open>
  C2, as the code has it.  Let the game be running with its last active frame at
  \<open>lastFrameTime g\<close>.  After a pause (the tab is hidden, or the parent controls are
  opened) the frames at any time stamps \<open>ts\<close> update nothing and leave the game as it
  is, \<open>lastFrameTime\<close> included.  The first frame after the resume, at \<open>t1\<close>, passes
  \<open>deltaTime = t1 - lastFrameTime g\<close> to \<open>update\<close>: the time since the last active
  frame.  So when the pause began at \<open>tp\<close>, not before the last active frame, and lasted
  \<open>T\<close>, that \<open>deltaTime\<close> is at least \<open>T\<close>.
\<close>

theorem gameLoop_deltaTime_after_resume:
  assumes run: "isRunning g"
  shows "gameLoops ts (handleVisibilityChange True g)
           = (handleVisibilityChange True g, map (\<lambda>t. None) ts)
       \<and> snd (gameLoop t1 (handleVisibilityChange False
                 (fst (gameLoops ts (handleVisibilityChange True g)))))
           = Some (t1 - lastFrameTime g)
       \<and> (parentControls g = Some True \<longrightarrow>
            gameLoops ts (toggleParentControls g) = (toggleParentControls g, map (\<lambda>t. None) ts)
          \<and> snd (gameLoop t1 (toggleParentControls
                 (fst (gameLoops ts (toggleParentControls g)))))
           = Some (t1 - lastFrameTime g))
       \<and> (lastFrameTime g \<le> tp \<and> tp + T \<le> t1 \<longrightarrow>
            (\<exists>dt. snd (gameLoop t1 (handleVisibilityChange False
                 (fst (gameLoops ts (handleVisibilityChange True g))))) = Some dt \<and> T \<le> dt))"
proof -
  have p1: "isPaused (handleVisibilityChange True g)"
    by (simp add: handleVisibilityChange_def)
  have a: "gameLoops ts (handleVisibilityChange True g)
           = (handleVisibilityChange True g, map (\<lambda>t. None) ts)"
    using p1 by (rule gameLoops_paused)
  have b: "snd (gameLoop t1 (handleVisibilityChange False
                 (fst (gameLoops ts (handleVisibilityChange True g)))))
           = Some (t1 - lastFrameTime g)"
    unfolding a using run by (simp add: handleVisibilityChange_def gameLoop_def)
  have c: "gameLoops ts (toggleParentControls g) = (toggleParentControls g, map (\<lambda>t. None) ts)
          \<and> snd (gameLoop t1 (toggleParentControls
                 (fst (gameLoops ts (toggleParentControls g)))))
           = Some (t1 - lastFrameTime g)" if h: "parentControls g = Some True"
  proof -
    have p2: "isPaused (toggleParentControls g)"
      using h by (simp add: toggleParentControls_def)
    have c1: "gameLoops ts (toggleParentControls g) = (toggleParentControls g, map (\<lambda>t. None) ts)"
      using p2 by (rule gameLoops_paused)
    show ?thesis unfolding c1 using run h by (simp add: toggleParentControls_def gameLoop_def)
  qed
  show ?thesis using a b c by auto
qed

theorem gameLoop_deltaTime_after_resume_witness:
  "snd (gameLoop 61016 (handleVisibilityChange False
          (fst (gameLoops [1016, 1033] (handleVisibilityChange True
             \<lparr>isRunning = True, isPaused = False, lastFrameTime = 1000,
              parentControls = Some True\<rparr>)))))
     = Some 60016
   \<and> snd (gameLoop 61016 (toggleParentControls
          (fst (gameLoops [1016, 1033] (toggleParentControls
             \<lparr>isRunning = True, isPaused = False, lastFrameTime = 1000,
              parentControls = Some True\<rparr>)))))
     = Some 60016"
  using gameLoop_deltaTime_after_resume
    [of "\<lparr>isRunning = True, isPaused = False, lastFrameTime = 1000,
          parentControls = Some True\<rparr>" "[1016, 1033]" 61016 1000 60000]
  by (simp add: handleVisibilityChange_def toggleParentControls_def gameLoop_def)

text \<open>
  C2 as the specification states it fails: the tab is hidden right after the frame at
  1000 ms and shown again at 61000 ms, so the pause lasts \<open>T = 60000\<close> ms.  Three
  frames arrive while the game is paused.  The first frame after the resume, at
  61000 ms, passes \<open>deltaTime = 60000\<close> to \<open>update\<close>: it equals \<open>T\<close> and it is not within
  a frame interval (16.67 ms).
\<close>

theorem gameLoop_deltaTime_counterexample:
  "snd (gameLoop 61000 (handleVisibilityChange False
          (fst (gameLoops [1016, 1033, 30000] (handleVisibilityChange True
             \<lparr>isRunning = True, isPaused = False, lastFrameTime = 1000,
              parentControls = Some True\<rparr>)))))
     = Some (61000 - 1000)
   \<and> \<not> ((61000 - 1000 :: real) \<le> CONFIG_performance_maxFrameTime)"
  by (simp add: handleVisibilityChange_def gameLoop_def CONFIG_performance_maxFrameTime_def)

subsection \<open>The lifespan of an explosion shape\<close>

text \<open>
  C4.  A shape initialised with the effect \<open>explosion\<close> at the time \<open>t0\<close>, whatever its
  position, type, colour and random draws, has the lifespan 4500 ms, which is the
  animation duration 3000 ms times 1.5.  Its \<open>update\<close> reports it alive at the age
  4499 ms and expired at the age 4501 ms; it is alive exactly at the ages below 4500.
\<close>

theorem Shape_explosion_lifespan:
  "s_lifespan (fst (Shape_init px py ty color ''explosion'' t0 r s0)) = 4500
   \<and> CONFIG_shapes_animationDuration * 1.5 = 4500
   \<and> snd (Shape_update dt (t0 + 4499) (fst (Shape_init px py ty color ''explosion'' t0 r s0)))
   \<and> \<not> snd (Shape_update dt (t0 + 4501) (fst (Shape_init px py ty color ''explosion'' t0 r s0)))
   \<and> snd (Shape_update dt (t0 + age) (fst (Shape_init px py ty color ''explosion'' t0 r s0)))
       = (age < 4500)"
  by (simp add: Shape_update_def Shape_init_def initEffect_def Shape_reset_def
        CONFIG_shapes_animationDuration_def Let_def)

theorem Shape_explosion_lifespan_witness:
  "s_lifespan (fst (Shape_init 200 300 (Some ''heart'') (Some ''#FF6B6B'') ''explosion'' 0
       (\<lambda>n. 1 / 2) Shape_new)) = 4500
   \<and> snd (Shape_update 16 4499
       (fst (Shape_init 200 300 (Some ''heart'') (Some ''#FF6B6B'') ''explosion'' 0
          (\<lambda>n. 1 / 2) Shape_new)))
   \<and> \<not> snd (Shape_update 16 4501
       (fst (Shape_init 200 300 (Some ''heart'') (Some ''#FF6B6B'') ''explosion'' 0
          (\<lambda>n. 1 / 2) Shape_new)))"
  using Shape_explosion_lifespan
    [of 200 300 "Some ''heart''" "Some ''#FF6B6B''" 0 "\<lambda>n. 1 / 2" Shape_new 16 0]
  by simp

subsection \<open>The cap on concurrent sounds\<close>

text \<open>
  C5.  A \<open>playSound\<close> call made while as many sounds are active as the manager allows
  starts no signal and leaves the manager as it is (nothing is queued); the call
  returns, it has no error result.  The constructor sets the limit to 5, so the sixth
  concurrent call is such a no-op.
\<close>

theorem playSound_at_cap_is_noop:
  "(maxConcurrentSounds sm \<le> length (activeSounds sm) \<longrightarrow>
      playSound ty frequency options now u backendOk sm = (sm, []))
   \<and> maxConcurrentSounds SoundManager_new = 5"
  by (simp add: playSound_def SoundManager_new_def CONFIG_audio_maxConcurrentSounds_def)

theorem playSound_at_cap_is_noop_witness:
  "playSound ''note'' 440 \<lparr>so_duration = None, so_volume = None\<rparr> 6 (1 / 2) True
     (SoundManager_new\<lparr>audioContext := True, useWebAudio := True,
        activeSounds := [(''note'', 1, 0), (''note'', 2, 0), (''chime'', 3, 0),
                         (''bell'', 4, 0), (''toy'', 5, 0)]\<rparr>)
   = (SoundManager_new\<lparr>audioContext := True, useWebAudio := True,
        activeSounds := [(''note'', 1, 0), (''note'', 2, 0), (''chime'', 3, 0),
                         (''bell'', 4, 0), (''toy'', 5, 0)]\<rparr>, [])"
  using playSound_at_cap_is_noop
    [of "SoundManager_new\<lparr>audioContext := True, useWebAudio := True,
        activeSounds := [(''note'', 1, 0), (''note'', 2, 0), (''chime'', 3, 0),
                         (''bell'', 4, 0), (''toy'', 5, 0)]\<rparr>"
        "''note''" 440 "\<lparr>so_duration = None, so_volume = None\<rparr>" 6 "1 / 2" True]
  by (simp add: SoundManager_new_def CONFIG_audio_maxConcurrentSounds_def)

subsection \<open>The shape type of a letter\<close>

lemma char_eq_char_of: "(c = char_of (n::nat)) = ((of_char c :: nat) = n mod 256)"
  by (metis char_of_char of_char_of)

lemma getShapeType_lowercase:
  assumes "97 \<le> (of_char c :: nat)" "(of_char c :: nat) \<le> 122"
  shows "getShapeType \<lparr>ki_type = ''letter'', ki_character = Some [c], ki_effect = e\<rparr> r
         = (Inr (Some (CONFIG_shapes_types ! (((of_char c :: nat) - 97) mod 5))), r)"
proof -
  have m: "((of_char c :: nat) - 32) mod 256 = of_char c - 32"
    using assms by simp
  have i: "int (of_char c) - 97 = int ((of_char c :: nat) - 97)"
    using assms by simp
  have b: "((of_char c :: nat) - 97) mod 5 < 5" by simp
  show ?thesis using assms m b
    by (simp add: getShapeType_def js_toUpperCase_def js_toLowerCase_def js_charCodeAt0_def
          js_index_def js_rem_int_def char_eq_char_of i nat_mod_distrib zmod_int
          del: of_nat_diff)
       (simp add: CONFIG_shapes_types_def)
qed

lemma getShapeType_uppercase:
  assumes "65 \<le> (of_char c :: nat)" "(of_char c :: nat) \<le> 90"
  shows "getShapeType \<lparr>ki_type = ''letter'', ki_character = Some [c], ki_effect = e\<rparr> r
         = (Inr (Some ''star''), r)"
  using assms by (simp add: getShapeType_def js_toUpperCase_def)

text \<open>
  C6.  For a letter key, \<open>getShapeType\<close> maps a lowercase letter to the entry of the
  five shape types at its alphabetic index (\<open>a\<close> is 0) modulo 5, without drawing a
  random number, so \<open>a\<close> (index 0) and \<open>k\<close> (index 10) get the same type; and it maps
  every uppercase letter to \<open>star\<close>.
\<close>

theorem getShapeType_letter:
  "(97 \<le> (of_char c :: nat) \<and> (of_char c :: nat) \<le> 122 \<longrightarrow>
      getShapeType \<lparr>ki_type = ''letter'', ki_character = Some [c], ki_effect = e\<rparr> r
        = (Inr (js_index CONFIG_shapes_types (int (((of_char c :: nat) - 97) mod 5))), r)
      \<and> js_index CONFIG_shapes_types (int (((of_char c :: nat) - 97) mod 5)) \<noteq> None)
   \<and> (65 \<le> (of_char c :: nat) \<and> (of_char c :: nat) \<le> 90 \<longrightarrow>
      getShapeType \<lparr>ki_type = ''letter'', ki_character = Some [c], ki_effect = e\<rparr> r
        = (Inr (Some ''star''), r))
   \<and> getShapeType \<lparr>ki_type = ''letter'', ki_character = Some ''a'', ki_effect = e\<rparr> r
        = getShapeType \<lparr>ki_type = ''letter'', ki_character = Some ''k'', ki_effect = e\<rparr> r
   \<and> length CONFIG_shapes_types = 5"
proof -
  have b: "((of_char c :: nat) - 97) mod 5 < 5" by simp
  have ix: "js_index CONFIG_shapes_types (int (((of_char c :: nat) - 97) mod 5))
            = Some (CONFIG_shapes_types ! (((of_char c :: nat) - 97) mod 5))"
    using b by (simp add: js_index_def CONFIG_shapes_types_def)
  have ak: "getShapeType \<lparr>ki_type = ''letter'', ki_character = Some ''a'', ki_effect = e\<rparr> r
        = getShapeType \<lparr>ki_type = ''letter'', ki_character = Some ''k'', ki_effect = e\<rparr> r"
    by (simp add: getShapeType_lowercase)
  show ?thesis
    using ak by (simp add: ix getShapeType_lowercase getShapeType_uppercase)
        (simp add: CONFIG_shapes_types_def)
qed

theorem getShapeType_letter_witness:
  "getShapeType \<lparr>ki_type = ''letter'', ki_character = Some ''k'', ki_effect = None\<rparr> (\<lambda>n. 0)
     = (Inr (Some ''circle''), (\<lambda>n. 0))
   \<and> getShapeType \<lparr>ki_type = ''letter'', ki_character = Some ''a'', ki_effect = None\<rparr> (\<lambda>n. 0)
     = (Inr (Some ''circle''), (\<lambda>n. 0))
   \<and> getShapeType \<lparr>ki_type = ''letter'', ki_character = Some ''Q'', ki_effect = None\<rparr> (\<lambda>n. 0)
     = (Inr (Some ''star''), (\<lambda>n. 0))"
  using getShapeType_letter [of "CHR ''k''" None "\<lambda>n. 0"]
        getShapeType_letter [of "CHR ''Q''" None "\<lambda>n. 0"]
  by (simp add: js_index_def CONFIG_shapes_types_def)


subsection \<open>The physics step of a particle\<close>

lemmas Particle_init_simps = Particle_init_def Particle_reset_def Particle_new_def
  updateColor_def randomBetween_def Let_def CONFIG_particles_minSize_def
  CONFIG_particles_maxSize_def

text \<open>
  C9, as the code has it.  Every update step of an active particle with the elapsed
  time \<open>dt\<close> moves the position by the velocity it had before the step,
  \<open>x += vx*dt*k; y += vy*dt*k\<close>, and only then changes the velocity,
  \<open>vy += gravity*dt*k; vx *= friction; vy *= friction\<close>, with \<open>k = 0.06\<close>; gravity
  and friction are not changed by the step.  Every particle is active after \<open>init\<close>, and
  with draws in \<open>[0, 1)\<close> its gravity is positive (it adds to \<open>vy\<close>, downwards) and its
  friction lies strictly between 0 and 1.
\<close>

theorem Particle_update_physics:
  "(p_isActive p \<longrightarrow>
      p_x (fst (Particle_update dt p)) = p_x p + p_vx p * dt * 0.06
    \<and> p_y (fst (Particle_update dt p)) = p_y p + p_vy p * dt * 0.06
    \<and> p_vy (fst (Particle_update dt p)) = (p_vy p + p_gravity p * dt * 0.06) * p_friction p
    \<and> p_vx (fst (Particle_update dt p)) = p_vx p * p_friction p
    \<and> p_gravity (fst (Particle_update dt p)) = p_gravity p
    \<and> p_friction (fst (Particle_update dt p)) = p_friction p)
   \<and> p_isActive (fst (Particle_init px py options r p0))
   \<and> (0 \<le> r 4 \<and> r 4 < 1 \<and> 0 \<le> r 5 \<and> r 5 < 1 \<longrightarrow>
        0 < p_gravity (fst (Particle_init px py options r p0))
      \<and> 0 < p_friction (fst (Particle_init px py options r p0))
      \<and> p_friction (fst (Particle_init px py options r p0)) < 1)"
proof -
  have a: "p_isActive (fst (Particle_init px py options r p0))"
    by (simp add: Particle_init_simps)
  have g: "0 < p_gravity (fst (Particle_init px py options r p0))" if "0 \<le> r 4"
    using that by (simp add: Particle_init_simps add_pos_nonneg)
  have f: "0 < p_friction (fst (Particle_init px py options r p0))
      \<and> p_friction (fst (Particle_init px py options r p0)) < 1" if "0 \<le> r 5" "r 5 < 1"
    using that by (simp add: Particle_init_simps add_pos_nonneg)
  have u: "p_x (fst (Particle_update dt p)) = p_x p + p_vx p * dt * 0.06
    \<and> p_y (fst (Particle_update dt p)) = p_y p + p_vy p * dt * 0.06
    \<and> p_vy (fst (Particle_update dt p)) = (p_vy p + p_gravity p * dt * 0.06) * p_friction p
    \<and> p_vx (fst (Particle_update dt p)) = p_vx p * p_friction p
    \<and> p_gravity (fst (Particle_update dt p)) = p_gravity p
    \<and> p_friction (fst (Particle_update dt p)) = p_friction p" if "p_isActive p"
    using that by (simp add: Particle_update_def updateColor_def Let_def)
  show ?thesis using a g f u by blast
qed

theorem Particle_update_physics_witness:
  "p_x (fst (Particle_update 100 (fst (Particle_init 0 0
                 \<lparr>po_type = None, po_isClickParticle = None, po_burstIntensity = None\<rparr>
                 (\<lambda>n. if n = 2 then 3 / 4 else if n = 3 then 4 / 5 else if n = 5 then 0 else 1 / 2)
                 Particle_new)))) = 3
   \<and> p_y (fst (Particle_update 100 (fst (Particle_init 0 0
                 \<lparr>po_type = None, po_isClickParticle = None, po_burstIntensity = None\<rparr>
                 (\<lambda>n. if n = 2 then 3 / 4 else if n = 3 then 4 / 5 else if n = 5 then 0 else 1 / 2)
                 Particle_new)))) = 0
   \<and> p_vx (fst (Particle_update 100 (fst (Particle_init 0 0
                 \<lparr>po_type = None, po_isClickParticle = None, po_burstIntensity = None\<rparr>
                 (\<lambda>n. if n = 2 then 3 / 4 else if n = 3 then 4 / 5 else if n = 5 then 0 else 1 / 2)
                 Particle_new)))) = 475 / 1000
   \<and> p_vy (fst (Particle_update 100 (fst (Particle_init 0 0
                 \<lparr>po_type = None, po_isClickParticle = None, po_burstIntensity = None\<rparr>
                 (\<lambda>n. if n = 2 then 3 / 4 else if n = 3 then 4 / 5 else if n = 5 then 0 else 1 / 2)
                 Particle_new)))) = 57 / 100
   \<and> 0 < p_gravity (fst (Particle_init 0 0
                 \<lparr>po_type = None, po_isClickParticle = None, po_burstIntensity = None\<rparr>
                 (\<lambda>n. if n = 2 then 3 / 4 else if n = 3 then 4 / 5 else if n = 5 then 0 else 1 / 2)
                 Particle_new)) \<and> 0 < p_friction (fst (Particle_init 0 0
                 \<lparr>po_type = None, po_isClickParticle = None, po_burstIntensity = None\<rparr>
                 (\<lambda>n. if n = 2 then 3 / 4 else if n = 3 then 4 / 5 else if n = 5 then 0 else 1 / 2)
                 Particle_new)) \<and> p_friction (fst (Particle_init 0 0
                 \<lparr>po_type = None, po_isClickParticle = None, po_burstIntensity = None\<rparr>
                 (\<lambda>n. if n = 2 then 3 / 4 else if n = 3 then 4 / 5 else if n = 5 then 0 else 1 / 2)
                 Particle_new)) < 1"
  using Particle_update_physics
    [of "(fst (Particle_init 0 0
                 \<lparr>po_type = None, po_isClickParticle = None, po_burstIntensity = None\<rparr>
                 (\<lambda>n. if n = 2 then 3 / 4 else if n = 3 then 4 / 5 else if n = 5 then 0 else 1 / 2)
                 Particle_new))" 100 0 0
        "\<lparr>po_type = None, po_isClickParticle = None, po_burstIntensity = None\<rparr>"
        "(\<lambda>n. if n = 2 then 3 / 4 else if n = 3 then 4 / 5 else if n = 5 then 0 else 1 / 2)"
        Particle_new]
  by (simp add: Particle_init_simps)

text \<open>
  C9 as the specification states it fails, whatever the constant \<open>k\<close>.  The particle is
  the one \<open>init\<close> makes at the origin from the draws 3/4 and 4/5 for the velocity
  (\<open>vx = 0.5\<close>, \<open>vy = 0\<close>), 1/2 for gravity (0.1) and 0 for friction (0.95).  One step
  of 100 ms of the code leaves it at \<open>x = 3\<close>, \<open>y = 0\<close>; the sequence of the
  specification leaves it at \<open>x = 47.5 k\<close>, \<open>y = 950 k\<^sup>2\<close>, and no \<open>k\<close> gives both.
\<close>

lemma Particle_update_example:
  "p_x (fst (Particle_update 100 (fst (Particle_init 0 0
                 \<lparr>po_type = None, po_isClickParticle = None, po_burstIntensity = None\<rparr>
                 (\<lambda>n. if n = 2 then 3 / 4 else if n = 3 then 4 / 5 else if n = 5 then 0 else 1 / 2)
                 Particle_new)))) = 3"
  "p_y (fst (Particle_update 100 (fst (Particle_init 0 0
                 \<lparr>po_type = None, po_isClickParticle = None, po_burstIntensity = None\<rparr>
                 (\<lambda>n. if n = 2 then 3 / 4 else if n = 3 then 4 / 5 else if n = 5 then 0 else 1 / 2)
                 Particle_new)))) = 0"
  by (simp_all add: Particle_update_def Particle_init_simps)

lemma Particle_physics_spec_example:
  "p_x (Particle_physics_spec k 100 (fst (Particle_init 0 0
                 \<lparr>po_type = None, po_isClickParticle = None, po_burstIntensity = None\<rparr>
                 (\<lambda>n. if n = 2 then 3 / 4 else if n = 3 then 4 / 5 else if n = 5 then 0 else 1 / 2)
                 Particle_new))) = 47.5 * k"
  "p_y (Particle_physics_spec k 100 (fst (Particle_init 0 0
                 \<lparr>po_type = None, po_isClickParticle = None, po_burstIntensity = None\<rparr>
                 (\<lambda>n. if n = 2 then 3 / 4 else if n = 3 then 4 / 5 else if n = 5 then 0 else 1 / 2)
                 Particle_new))) = 950 * k * k"
  by (simp_all add: Particle_physics_spec_def Particle_init_simps algebra_simps)

theorem Particle_physics_order_counterexample:
  "\<not> (\<exists>k. p_x (Particle_physics_spec k 100 (fst (Particle_init 0 0
                 \<lparr>po_type = None, po_isClickParticle = None, po_burstIntensity = None\<rparr>
                 (\<lambda>n. if n = 2 then 3 / 4 else if n = 3 then 4 / 5 else if n = 5 then 0 else 1 / 2)
                 Particle_new))) = p_x (fst (Particle_update 100 (fst (Particle_init 0 0
                 \<lparr>po_type = None, po_isClickParticle = None, po_burstIntensity = None\<rparr>
                 (\<lambda>n. if n = 2 then 3 / 4 else if n = 3 then 4 / 5 else if n = 5 then 0 else 1 / 2)
                 Particle_new))))
         \<and> p_y (Particle_physics_spec k 100 (fst (Particle_init 0 0
                 \<lparr>po_type = None, po_isClickParticle = None, po_burstIntensity = None\<rparr>
                 (\<lambda>n. if n = 2 then 3 / 4 else if n = 3 then 4 / 5 else if n = 5 then 0 else 1 / 2)
                 Particle_new))) = p_y (fst (Particle_update 100 (fst (Particle_init 0 0
                 \<lparr>po_type = None, po_isClickParticle = None, po_burstIntensity = None\<rparr>
                 (\<lambda>n. if n = 2 then 3 / 4 else if n = 3 then 4 / 5 else if n = 5 then 0 else 1 / 2)
                 Particle_new)))))"
  unfolding Particle_update_example Particle_physics_spec_example by auto


subsection \<open>The ownership invariant\<close>

lemma pool_inv_pop:
  assumes "pool_inv live free n" "free \<noteq> []"
  shows "pool_inv (live @ [last free]) (butlast free) n" "last free \<notin> set live"
proof -
  obtain fs a where f: "free = fs @ [a]" using assms(2) by (metis append_butlast_last_id)
  show "pool_inv (live @ [last free]) (butlast free) n" "last free \<notin> set live"
    using assms(1) unfolding f pool_inv_def by auto
qed

lemma pool_inv_alloc:
  assumes "pool_inv live [] n"
  shows "pool_inv (live @ [n]) [] (Suc n)" "n \<notin> set live"
  using assms unfolding pool_inv_def by (auto simp: less_Suc_eq)

lemma pool_inv_evict:
  assumes "pool_inv (a # live) free n"
  shows "pool_inv live (free @ [a]) n"
  using assms unfolding pool_inv_def by auto

lemma pool_inv_filter:
  assumes "pool_inv live free n"
  shows "pool_inv (filter P live) (free @ filter (\<lambda>a. \<not> P a) live) n"
  using assms unfolding pool_inv_def by auto

lemma pool_inv_clear:
  assumes "pool_inv live free n"
  shows "pool_inv [] (free @ live) n"
  using assms unfolding pool_inv_def by auto

lemma pool_inv_mono: "pool_inv live free n \<Longrightarrow> n \<le> m \<Longrightarrow> pool_inv live free m"
  unfolding pool_inv_def by fastforce


subsection \<open>The loops over a pool\<close>

lemma prepopulate_list:
  assumes "createFn p = (\<lambda>h. (length h, h @ [v]))"
  shows "ObjectPool_prepopulate n p h
         = (p\<lparr>pool := pool p @ [length h..<length h + n]\<rparr>, h @ replicate n v)"
  using assms
proof (induction n arbitrary: p h)
  case 0
  then show ?case by simp
next
  case (Suc n)
  have "[length h..<Suc (length h + n)] = length h # [Suc (length h)..<Suc (length h + n)]"
    by (simp add: upt_rec)
  with Suc show ?case by (simp add: replicate_app_Cons_same)
qed

lemma forEach_release:
  "js_forEach (\<lambda>a (p, h). ObjectPool_release a p h) xs (p, h) = (p', h') \<Longrightarrow>
     pool p' = pool p @ xs \<and> createFn p' = createFn p \<and> resetFn p' = resetFn p"
proof (induction xs arbitrary: p h)
  case Nil
  then show ?case by simp
next
  case (Cons a xs)
  obtain p1 h1 where r: "ObjectPool_release a p h = (p1, h1)" by (cases "ObjectPool_release a p h")
  have p1: "pool p1 = pool p @ [a]" "createFn p1 = createFn p" "resetFn p1 = resetFn p"
    using r by (auto simp: ObjectPool_release_def Let_def)
  from Cons.prems r have "js_forEach (\<lambda>a (p, h). ObjectPool_release a p h) xs (p1, h1) = (p', h')"
    by simp
  from Cons.IH[OF this] p1 show ?case by simp
qed

lemma forEach_release_length:
  "resetFn p = Some (\<lambda>a h. h[a := f (h ! a)]) \<Longrightarrow>
   js_forEach (\<lambda>a (p, h). ObjectPool_release a p h) xs (p, h) = (p', h') \<Longrightarrow>
     length h' = length h"
proof (induction xs arbitrary: p h)
  case Nil
  then show ?case by simp
next
  case (Cons a xs)
  obtain p1 h1 where r: "ObjectPool_release a p h = (p1, h1)" by (cases "ObjectPool_release a p h")
  have p1: "resetFn p1 = resetFn p" "length h1 = length h"
    using r Cons.prems(1) by (auto simp: ObjectPool_release_def Let_def)
  from Cons.prems r have "js_forEach (\<lambda>a (p, h). ObjectPool_release a p h) xs (p1, h1) = (p', h')"
    by simp
  from Cons.IH[OF _ this] p1 Cons.prems(1) show ?case by simp
qed


subsection \<open>The store of the shape manager\<close>

lemma shape_createFn_eq: "shape_createFn = (\<lambda>h. (length h, h @ [Shape_new]))"
  by (rule ext) (simp add: shape_createFn_def)

lemma shape_resetFn_eq: "shape_resetFn = (\<lambda>a h. h[a := Shape_reset (h ! a)])"
  by (rule ext, rule ext) (simp add: shape_resetFn_def)

lemma ShapeManager_new_eq:
  "ShapeManager_new canvas =
     \<lparr>sm_canvas = canvas, shapes = [],
      shapePool = \<lparr>createFn = shape_createFn, resetFn = Some shape_resetFn, pool = [0..<10]\<rparr>,
      shapeHeap = replicate 10 Shape_new\<rparr>"
proof -
  have "createFn \<lparr>createFn = shape_createFn, resetFn = Some shape_resetFn, pool = []\<rparr>
        = (\<lambda>h. (length h, h @ [Shape_new]))"
    by (simp add: shape_createFn_eq)
  from prepopulate_list[OF this, of 10 "[]"] show ?thesis
    by (simp add: ShapeManager_new_def ObjectPool_new_def)
qed



text \<open>
  A filter whose callback updates the object at the address in place and releases it
  when the update answers \<open>false\<close>: what it keeps, what it releases and what it leaves
  in the store.
\<close>

lemma filter_release_generic:
  fixes upd :: "'a \<Rightarrow> 'a \<times> bool" and f :: "'a \<Rightarrow> 'a"
  assumes cb: "\<And>a p h. cb a (p, h) =
      (snd (upd (h ! a)),
       if \<not> snd (upd (h ! a)) then ObjectPool_release a p (h[a := fst (upd (h ! a))])
       else (p, h[a := fst (upd (h ! a))]))"
  shows "resetFn p = Some (\<lambda>a h. h[a := f (h ! a)]) \<Longrightarrow> distinct xs \<Longrightarrow>
     \<forall>a\<in>set xs. a < length h \<Longrightarrow> js_filter cb xs (p, h) = (kept, p', h') \<Longrightarrow>
     kept = filter (\<lambda>a. snd (upd (h ! a))) xs
     \<and> pool p' = pool p @ filter (\<lambda>a. \<not> snd (upd (h ! a))) xs
     \<and> createFn p' = createFn p \<and> resetFn p' = resetFn p \<and> length h' = length h
     \<and> (\<forall>b. b \<notin> set xs \<longrightarrow> h' ! b = h ! b)
     \<and> (\<forall>a\<in>set xs. h' ! a = (if snd (upd (h ! a)) then fst (upd (h ! a))
                              else f (fst (upd (h ! a)))))"
proof (induction xs arbitrary: p h kept p' h')
  case Nil
  then show ?case by simp
next
  case (Cons a xs)
  let ?s = "fst (upd (h ! a))"
  let ?alive = "snd (upd (h ! a))"
  define h2 where "h2 = (if ?alive then h[a := ?s] else h[a := f ?s])"
  define p2 where "p2 = (if ?alive then p else p\<lparr>pool := pool p @ [a]\<rparr>)"
  have a_lt: "a < length h" and a_notin: "a \<notin> set xs" and dist: "distinct xs"
    using Cons.prems by simp_all
  have step: "cb a (p, h) = (?alive, p2, h2)"
    using Cons.prems(1) a_lt
    by (simp add: cb ObjectPool_release_def p2_def h2_def)
  obtain kept2 where rest: "js_filter cb xs (p2, h2) = (kept2, p', h')"
    and kept: "kept = (if ?alive then a # kept2 else kept2)"
    using Cons.prems(4) by (auto simp: step split: prod.splits)
  have r2: "resetFn p2 = Some (\<lambda>a h. h[a := f (h ! a)])"
    using Cons.prems(1) by (simp add: p2_def)
  have len2: "length h2 = length h" by (simp add: h2_def)
  have lt2: "\<forall>b\<in>set xs. b < length h2" using Cons.prems(3) by (simp add: len2)
  have same: "h2 ! b = h ! b" if "b \<noteq> a" for b
    using that by (simp add: h2_def)
  have same_xs: "h2 ! b = h ! b" if "b \<in> set xs" for b
    using that a_notin by (intro same) auto
  have at_a: "h2 ! a = (if ?alive then ?s else f ?s)"
    using a_lt by (simp add: h2_def)
  note IH = Cons.IH[OF r2 dist lt2 rest]
  have k2: "kept2 = filter (\<lambda>b. snd (upd (h ! b))) xs"
    using IH same_xs by (simp cong: filter_cong)
  have pl: "pool p' = pool p2 @ filter (\<lambda>b. \<not> snd (upd (h ! b))) xs"
    using IH same_xs by (simp cong: filter_cong)
  have fns: "createFn p' = createFn p" "resetFn p' = resetFn p" "length h' = length h"
    using IH by (simp_all add: p2_def len2)
  have out: "h' ! b = h ! b" if "b \<notin> set (a # xs)" for b
    using IH that same[of b] by simp
  have in_xs: "h' ! b = (if snd (upd (h ! b)) then fst (upd (h ! b)) else f (fst (upd (h ! b))))"
    if "b \<in> set xs" for b
    using IH that same_xs[OF that] by simp
  have in_a: "h' ! a = (if ?alive then ?s else f ?s)"
    using IH a_notin at_a by simp
  show ?case
    using k2 pl fns out in_xs in_a by (auto simp: kept p2_def)
qed

lemma list_get:
  "createFn p = (\<lambda>h. (length h, h @ [v])) \<Longrightarrow>
   ObjectPool_get p h =
     (if pool p \<noteq> [] then (last (pool p), p\<lparr>pool := butlast (pool p)\<rparr>, h)
      else (length h, p, h @ [v]))"
  by (simp add: ObjectPool_get_def)

lemma list_release:
  "resetFn p = Some (\<lambda>a h. h[a := f (h ! a)]) \<Longrightarrow>
   ObjectPool_release a p h = (p\<lparr>pool := pool p @ [a]\<rparr>, h[a := f (h ! a)])"
  by (simp add: ObjectPool_release_def)

lemma list_get_inv:
  assumes "createFn p = (\<lambda>h. (length h, h @ [v]))" "pool_inv live (pool p) (length h)"
    and "ObjectPool_get p h = (a, p1, h1)"
  shows "pool_inv (live @ [a]) (pool p1) (length h1) \<and> a \<notin> set live \<and> a < length h1
     \<and> createFn p1 = createFn p \<and> resetFn p1 = resetFn p \<and> length h \<le> length h1
     \<and> (\<forall>b<length h. h1 ! b = h ! b)"
proof (cases "pool p = []")
  case True
  with assms have e: "a = length h" "p1 = p" "h1 = h @ [v]"
    by (simp_all add: list_get)
  show ?thesis unfolding e
    using assms(2) True pool_inv_alloc[of live "length h"] by (simp add: nth_append)
next
  case False
  with assms have e: "a = last (pool p)" "p1 = p\<lparr>pool := butlast (pool p)\<rparr>" "h1 = h"
    by (simp_all add: list_get)
  have "last (pool p) \<in> set (pool p)" using False by simp
  then have "last (pool p) < length h" using assms(2) unfolding pool_inv_def by simp
  then show ?thesis unfolding e
    using assms(2) False pool_inv_pop[of live "pool p" "length h"] by simp
qed

subsection \<open>Spawning a shape\<close>

lemma Shape_init_position:
  "s_x (fst (Shape_init px py ty color effect now r s)) = px"
  "s_y (fst (Shape_init px py ty color effect now r s)) = py"
  "s_isActive (fst (Shape_init px py ty color effect now r s))"
proof -
  have sp: "s_x (fst (initSparkles_loop n s0 r0)) = s_x s0
      \<and> s_y (fst (initSparkles_loop n s0 r0)) = s_y s0
      \<and> s_isActive (fst (initSparkles_loop n s0 r0)) = s_isActive s0" for n s0 r0
    by (induction n s0 r0 rule: initSparkles_loop.induct) (simp_all add: Let_def)
  show "s_x (fst (Shape_init px py ty color effect now r s)) = px"
    "s_y (fst (Shape_init px py ty color effect now r s)) = py"
    "s_isActive (fst (Shape_init px py ty color effect now r s))"
    by (simp_all add: Shape_init_def initEffect_def initSparkles_def Let_def sp case_prod_beta)
qed

text \<open>The two ways \<open>createShape\<close> ends: the TypeError, or a shape pushed.\<close>

lemma createShape_cases:
  obtains (Err) e r2 a p1 h1 where
      "ObjectPool_get (shapePool sm) (shapeHeap sm) = (a, p1, h1)"
      "createShape keyInfo now r sm = (Inl e, r2, sm\<lparr>shapePool := p1, shapeHeap := h1\<rparr>)"
  | (Ok) a p1 h1 s' r4 where
      "ObjectPool_get (shapePool sm) (shapeHeap sm) = (a, p1, h1)"
      "s_isActive s'"
      "s_x s' = randomBetween (r 0) CONFIG_shapes_maxSize
                  (cv_rect_width (sm_canvas sm) - CONFIG_shapes_maxSize)"
      "s_y s' = randomBetween (r 1) CONFIG_shapes_maxSize
                  (cv_rect_height (sm_canvas sm) - CONFIG_shapes_maxSize)"
      "createShape keyInfo now r sm =
         (Inr a, r4,
          (if length (shapes sm @ [a]) > CONFIG_shapes_maxActiveShapes
           then sm\<lparr>shapes := tl (shapes sm @ [a]),
                   shapePool := fst (ObjectPool_release (hd (shapes sm @ [a])) p1 (h1[a := s'])),
                   shapeHeap := snd (ObjectPool_release (hd (shapes sm @ [a])) p1 (h1[a := s']))\<rparr>
           else sm\<lparr>shapes := shapes sm @ [a], shapePool := p1, shapeHeap := h1[a := s']\<rparr>))"
proof -
  obtain pos r1 where g1: "getRandomPosition (cv_rect_width (sm_canvas sm))
        (cv_rect_height (sm_canvas sm)) CONFIG_shapes_maxSize r = (pos, r1)"
    by (cases "getRandomPosition (cv_rect_width (sm_canvas sm))
        (cv_rect_height (sm_canvas sm)) CONFIG_shapes_maxSize r")
  have pos: "fst pos = randomBetween (r 0) CONFIG_shapes_maxSize
                  (cv_rect_width (sm_canvas sm) - CONFIG_shapes_maxSize)"
      "snd pos = randomBetween (r 1) CONFIG_shapes_maxSize
                  (cv_rect_height (sm_canvas sm) - CONFIG_shapes_maxSize)"
    using g1 by (auto simp: getRandomPosition_def rng_head_def rng_tail_def)
  obtain a p1 h1 where g2: "ObjectPool_get (shapePool sm) (shapeHeap sm) = (a, p1, h1)"
    by (cases "ObjectPool_get (shapePool sm) (shapeHeap sm)")
  obtain tyres r2 where g3: "getShapeType keyInfo r1 = (tyres, r2)"
    by (cases "getShapeType keyInfo r1")
  show thesis
  proof (cases tyres)
    case (Inl e)
    show thesis
      by (rule Err[OF g2]) (simp add: createShape_def g1 g2 g3 Inl)
  next
    case (Inr ty)
    obtain color r3 where g4: "getRandomColor r2 = (color, r3)"
      by (cases "getRandomColor r2")
    define effect where "effect = (case ki_effect keyInfo of None \<Rightarrow> ''normal''
                    | Some e \<Rightarrow> if e = [] then ''normal'' else e)"
    obtain s' r4 where g5: "Shape_init (fst pos) (snd pos) ty color effect now r3 (h1 ! a) = (s', r4)"
      by (cases "Shape_init (fst pos) (snd pos) ty color effect now r3 (h1 ! a)")
    have s': "s' = fst (Shape_init (fst pos) (snd pos) ty color effect now r3 (h1 ! a))"
      by (simp add: g5)
    have f1: "s_isActive s'" unfolding s' by (rule Shape_init_position)
    have f2: "s_x s' = randomBetween (r 0) CONFIG_shapes_maxSize
                  (cv_rect_width (sm_canvas sm) - CONFIG_shapes_maxSize)"
      unfolding s' by (simp add: Shape_init_position pos)
    have f3: "s_y s' = randomBetween (r 1) CONFIG_shapes_maxSize
                  (cv_rect_height (sm_canvas sm) - CONFIG_shapes_maxSize)"
      unfolding s' by (simp add: Shape_init_position pos)
    have f4: "createShape keyInfo now r sm =
         (Inr a, r4,
          (if length (shapes sm @ [a]) > CONFIG_shapes_maxActiveShapes
           then sm\<lparr>shapes := tl (shapes sm @ [a]),
                   shapePool := fst (ObjectPool_release (hd (shapes sm @ [a])) p1 (h1[a := s'])),
                   shapeHeap := snd (ObjectPool_release (hd (shapes sm @ [a])) p1 (h1[a := s']))\<rparr>
           else sm\<lparr>shapes := shapes sm @ [a], shapePool := p1, shapeHeap := h1[a := s']\<rparr>))"
      by (simp add: createShape_def g1 g2 g3 Inr g4 g5[unfolded effect_def] Let_def
           case_prod_beta)
    show thesis by (rule Ok[OF g2 f1 f2 f3 f4])
  qed
qed

text \<open>\<open>createShape\<close> throws only for a letter key that has no character.\<close>

lemma getShapeType_Inl:
  "getShapeType keyInfo r = (Inl e, r') \<Longrightarrow>
     ki_type keyInfo = ''letter'' \<and> ki_character keyInfo = None"
  by (auto simp: getShapeType_def Let_def split: if_splits option.splits)

lemma createShape_Inl:
  assumes "fst (createShape keyInfo now r sm) = Inl e"
  shows "ki_type keyInfo = ''letter'' \<and> ki_character keyInfo = None"
proof -
  obtain tyres r2 where g: "getShapeType keyInfo (rng_tail (rng_tail r)) = (tyres, r2)"
    by (cases "getShapeType keyInfo (rng_tail (rng_tail r))")
  show ?thesis
  proof (cases tyres)
    case (Inl e')
    with g show ?thesis by (simp add: getShapeType_Inl)
  next
    case (Inr ty)
    with g assms show ?thesis
      by (simp add: createShape_def getRandomPosition_def case_prod_beta Let_def
            split: if_splits)
  qed
qed

lemma pool_inv_drop_last: "pool_inv (live @ [a]) free n \<Longrightarrow> pool_inv live free n"
  unfolding pool_inv_def by auto

lemma createShape_length:
  "length (shapes (snd (snd (createShape keyInfo now r sm))))
     \<le> max CONFIG_shapes_maxActiveShapes (length (shapes sm))"
  by (cases rule: createShape_cases[of sm keyInfo now r]) auto

lemma createShapes_length:
  "length (shapes sm) \<le> CONFIG_shapes_maxActiveShapes \<Longrightarrow>
   length (shapes (createShapes ks r sm)) \<le> CONFIG_shapes_maxActiveShapes"
proof (induction ks arbitrary: r sm)
  case Nil
  then show ?case by simp
next
  case (Cons k ks)
  obtain keyInfo now where k: "k = (keyInfo, now)" by (cases k)
  obtain res r' sm' where c: "createShape keyInfo now r sm = (res, r', sm')"
    by (cases "createShape keyInfo now r sm")
  have "length (shapes sm') \<le> CONFIG_shapes_maxActiveShapes"
    using createShape_length[of keyInfo now r sm] Cons.prems by (simp add: c)
  from Cons.IH[OF this] show ?case by (simp add: k c)
qed

lemma createShape_wf:
  assumes "sm_wf sm"
  shows "sm_wf (snd (snd (createShape keyInfo now r sm)))"
proof (cases rule: createShape_cases[of sm keyInfo now r])
  case (Err e r2 a p1 h1)
  from assms have cf: "createFn (shapePool sm) = (\<lambda>h. (length h, h @ [Shape_new]))"
    and inv: "pool_inv (shapes sm) (pool (shapePool sm)) (length (shapeHeap sm))"
    by (simp_all add: sm_wf_def shape_createFn_eq)
  note g = list_get_inv[OF cf inv Err(1)]
  from g have "pool_inv (shapes sm) (pool p1) (length h1)"
    by (blast intro: pool_inv_drop_last)
  with g assms show ?thesis
    by (simp add: Err(2) sm_wf_def)
next
  case (Ok a p1 h1 s' r4)
  from assms have cf: "createFn (shapePool sm) = (\<lambda>h. (length h, h @ [Shape_new]))"
    and inv: "pool_inv (shapes sm) (pool (shapePool sm)) (length (shapeHeap sm))"
    by (simp_all add: sm_wf_def shape_createFn_eq)
  note g = list_get_inv[OF cf inv Ok(1)]
  have rf: "resetFn p1 = Some (\<lambda>a h. h[a := Shape_reset (h ! a)])"
    using g assms by (simp add: sm_wf_def shape_resetFn_eq)
  show ?thesis
  proof (cases "length (shapes sm @ [a]) > CONFIG_shapes_maxActiveShapes")
    case True
    have "shapes sm @ [a] = hd (shapes sm @ [a]) # tl (shapes sm @ [a])" by simp
    with g have "pool_inv (hd (shapes sm @ [a]) # tl (shapes sm @ [a])) (pool p1) (length h1)"
      by simp
    from pool_inv_evict[OF this] True g assms show ?thesis
      by (simp add: Ok(5) sm_wf_def list_release[OF rf])
  next
    case False
    with g assms show ?thesis by (simp add: Ok(5) sm_wf_def)
  qed
qed

lemma createShape_at_capacity:
  assumes wf: "sm_wf sm" and full: "length (shapes sm) = CONFIG_shapes_maxActiveShapes"
    and ok: "createShape keyInfo now r sm = (Inr a, r', sm')"
  shows "shapes sm' = tl (shapes sm) @ [a]"
    "last (pool (shapePool sm')) = hd (shapes sm)"
    "hd (shapes sm) \<notin> set (shapes sm')"
    "\<not> s_isActive (shapeHeap sm' ! hd (shapes sm))"
    "length (shapes sm') = CONFIG_shapes_maxActiveShapes"
proof -
  have ne: "shapes sm \<noteq> []" using full by (auto simp: CONFIG_shapes_maxActiveShapes_def)
  from wf have cf: "createFn (shapePool sm) = (\<lambda>h. (length h, h @ [Shape_new]))"
    and inv: "pool_inv (shapes sm) (pool (shapePool sm)) (length (shapeHeap sm))"
    by (simp_all add: sm_wf_def shape_createFn_eq)
  have "shapes sm' = tl (shapes sm) @ [a] \<and> last (pool (shapePool sm')) = hd (shapes sm)
      \<and> hd (shapes sm) \<notin> set (shapes sm') \<and> \<not> s_isActive (shapeHeap sm' ! hd (shapes sm))"
  proof (cases rule: createShape_cases[of sm keyInfo now r])
    case (Err e r2 a p1 h1)
    with ok show ?thesis by simp
  next
    case (Ok a1 p1 h1 s' r4)
    note g = list_get_inv[OF cf inv Ok(1)]
    have rf: "resetFn p1 = Some (\<lambda>a h. h[a := Shape_reset (h ! a)])"
      using g wf by (simp add: sm_wf_def shape_resetFn_eq)
    have a1: "a1 = a" using ok Ok(5) by simp
    have hd_in: "hd (shapes sm) \<in> set (shapes sm)" using ne by simp
    have d: "distinct (shapes sm)" using inv by (simp add: pool_inv_def)
    have hd_tl: "hd (shapes sm) \<notin> set (tl (shapes sm))"
      using d ne by (cases "shapes sm") auto
    have hd_a: "hd (shapes sm) \<noteq> a1" using g hd_in by auto
    have hd_lt: "hd (shapes sm) < length h1"
      using inv hd_in g unfolding pool_inv_def by fastforce
    have sm': "sm' = sm\<lparr>shapes := tl (shapes sm @ [a1]),
                   shapePool := fst (ObjectPool_release (hd (shapes sm @ [a1])) p1 (h1[a1 := s'])),
                   shapeHeap := snd (ObjectPool_release (hd (shapes sm @ [a1])) p1 (h1[a1 := s']))\<rparr>"
      using ok Ok(5) full by auto
    show ?thesis
      using ne hd_tl hd_a hd_lt
      by (simp add: sm' list_release[OF rf] a1[symmetric] Shape_reset_def)
  qed
  then show "shapes sm' = tl (shapes sm) @ [a]"
    "last (pool (shapePool sm')) = hd (shapes sm)"
    "hd (shapes sm) \<notin> set (shapes sm')"
    "\<not> s_isActive (shapeHeap sm' ! hd (shapes sm))"
    by blast+
  then show "length (shapes sm') = CONFIG_shapes_maxActiveShapes"
    using full ne by (simp add: CONFIG_shapes_maxActiveShapes_def)
qed

subsection \<open>Spawning a particle\<close>

lemma particle_createFn_eq: "particle_createFn = (\<lambda>h. (length h, h @ [Particle_new]))"
  by (rule ext) (simp add: particle_createFn_def)

lemma particle_resetFn_eq: "particle_resetFn = (\<lambda>a h. h[a := Particle_reset (h ! a)])"
  by (rule ext, rule ext) (simp add: particle_resetFn_def)

lemma ParticleSystem_new_eq:
  "ParticleSystem_new canvas =
     \<lparr>ps_canvas = canvas, particles = [],
      particlePool = \<lparr>createFn = particle_createFn, resetFn = Some particle_resetFn,
                      pool = [0..<50]\<rparr>,
      particleHeap = replicate 50 Particle_new,
      mouseX = cv_width canvas / 2, mouseY = cv_height canvas / 2,
      constantEmitRate = 120, lastConstantEmitTime = 0,
      constantParticleTypes = [''circle'', ''sparkle''], maxClickParticles = 20\<rparr>"
proof -
  have "createFn \<lparr>createFn = particle_createFn, resetFn = Some particle_resetFn, pool = []\<rparr>
        = (\<lambda>h. (length h, h @ [Particle_new]))"
    by (simp add: particle_createFn_eq)
  from prepopulate_list[OF this, of 50 "[]"] show ?thesis
    by (simp add: ParticleSystem_new_def ObjectPool_new_def)
qed


lemma Particle_init_position:
  "p_x (fst (Particle_init px py options r p)) = px"
  "p_y (fst (Particle_init px py options r p)) = py"
  by (simp_all add: Particle_init_def updateColor_def Let_def)

lemma removeOldestParticle_eq:
  assumes "ps_wf ps"
  shows "removeOldestParticle ps =
     ps\<lparr>particles := tl (particles ps),
        particlePool := (particlePool ps)\<lparr>pool := pool (particlePool ps) @ [hd (particles ps)]\<rparr>,
        particleHeap := (particleHeap ps)[hd (particles ps) :=
                           Particle_reset (particleHeap ps ! hd (particles ps))]\<rparr>"
proof -
  have rf: "resetFn (particlePool ps) = Some (\<lambda>a h. h[a := Particle_reset (h ! a)])"
    using assms by (simp add: ps_wf_def particle_resetFn_eq)
  show ?thesis by (simp add: removeOldestParticle_def list_release[OF rf])
qed

lemma removeOldestParticle_wf:
  assumes "ps_wf ps" "particles ps \<noteq> []"
  shows "ps_wf (removeOldestParticle ps)"
proof -
  have "pool_inv (hd (particles ps) # tl (particles ps)) (pool (particlePool ps))
          (length (particleHeap ps))"
    using assms by (simp add: ps_wf_def)
  from pool_inv_evict[OF this] assms(1) show ?thesis
    by (simp add: removeOldestParticle_eq[OF assms(1)] ps_wf_def)
qed

text \<open>\<open>createParticle\<close> in one equation.\<close>

lemma createParticle_eq:
  "createParticle px py options r ps =
     (let ps1 = (if length (particles ps) \<ge> CONFIG_particles_maxActiveParticles
                 then removeOldestParticle ps else ps);
          g = ObjectPool_get (particlePool ps1) (particleHeap ps1);
          a = fst g; p1 = fst (snd g); h1 = snd (snd g)
      in (a, (\<lambda>k. r (k + 8)),
          ps1\<lparr>particles := particles ps1 @ [a], particlePool := p1,
              particleHeap := h1[a := fst (Particle_init px py options r (h1 ! a))]\<rparr>))"
  by (simp add: createParticle_def Let_def case_prod_beta Particle_init_def)

lemma removeOldestParticle_fields:
  "particles (removeOldestParticle ps) = tl (particles ps)"
  "ps_canvas (removeOldestParticle ps) = ps_canvas ps"
  "mouseX (removeOldestParticle ps) = mouseX ps"
  "mouseY (removeOldestParticle ps) = mouseY ps"
  "constantParticleTypes (removeOldestParticle ps) = constantParticleTypes ps"
  "maxClickParticles (removeOldestParticle ps) = maxClickParticles ps"
  by (simp_all add: removeOldestParticle_def case_prod_beta)

lemma createParticle_fields:
  "ps_canvas (snd (snd (createParticle px py options r ps))) = ps_canvas ps"
  "mouseX (snd (snd (createParticle px py options r ps))) = mouseX ps"
  "mouseY (snd (snd (createParticle px py options r ps))) = mouseY ps"
  "constantParticleTypes (snd (snd (createParticle px py options r ps))) = constantParticleTypes ps"
  "maxClickParticles (snd (snd (createParticle px py options r ps))) = maxClickParticles ps"
  by (simp_all add: createParticle_eq Let_def removeOldestParticle_fields)

lemma createParticle_length:
  "length (particles (snd (snd (createParticle px py options r ps))))
     \<le> max CONFIG_particles_maxActiveParticles (length (particles ps))"
  by (auto simp: createParticle_eq Let_def removeOldestParticle_fields
        CONFIG_particles_maxActiveParticles_def)

lemma createParticle_at_capacity:
  assumes "length (particles ps) = CONFIG_particles_maxActiveParticles"
  shows "createParticle px py options r ps
         = createParticle px py options r (removeOldestParticle ps)"
  using assms
  by (simp add: createParticle_eq[of px py options r ps]
        createParticle_eq[of px py options r "removeOldestParticle ps"]
        removeOldestParticle_fields CONFIG_particles_maxActiveParticles_def)

text \<open>What \<open>createParticle\<close> does to a well-formed system.\<close>

lemma createParticle_below:
  assumes wf: "ps_wf ps"
    and c: "createParticle px py options r ps = (a, r', ps')"
    and below: "length (particles ps) < CONFIG_particles_maxActiveParticles"
  shows "ps_wf ps' \<and> particles ps' = particles ps @ [a] \<and> a \<notin> set (particles ps)
     \<and> a < length (particleHeap ps')
     \<and> particleHeap ps' ! a = fst (Particle_init px py options r
           (if pool (particlePool ps) = [] then Particle_new else particleHeap ps ! a))
     \<and> length (particleHeap ps) \<le> length (particleHeap ps')
     \<and> (\<forall>b<length (particleHeap ps). b \<noteq> a \<longrightarrow> particleHeap ps' ! b = particleHeap ps ! b)
     \<and> (\<forall>b<length (particleHeap ps'). b \<noteq> a \<longrightarrow> b < length (particleHeap ps))"
proof -
  from wf have cf: "createFn (particlePool ps) = (\<lambda>h. (length h, h @ [Particle_new]))"
    and inv: "pool_inv (particles ps) (pool (particlePool ps)) (length (particleHeap ps))"
    by (simp_all add: ps_wf_def particle_createFn_eq)
  obtain a1 p1 h1 where g: "ObjectPool_get (particlePool ps) (particleHeap ps) = (a1, p1, h1)"
    by (cases "ObjectPool_get (particlePool ps) (particleHeap ps)")
  note gi = list_get_inv[OF cf inv g]
  have e: "a = a1" "ps' = ps\<lparr>particles := particles ps @ [a1], particlePool := p1,
              particleHeap := h1[a1 := fst (Particle_init px py options r (h1 ! a1))]\<rparr>"
    using c below by (auto simp: createParticle_eq Let_def g)
  have h1a: "h1 ! a1 = (if pool (particlePool ps) = [] then Particle_new else particleHeap ps ! a1)"
    and h1len: "length h1 = (if pool (particlePool ps) = [] then Suc (length (particleHeap ps))
                             else length (particleHeap ps))"
    and a1v: "pool (particlePool ps) = [] \<longrightarrow> a1 = length (particleHeap ps)"
    using g by (auto simp: list_get[OF cf] split: if_splits)
  show ?thesis
    using gi wf h1a h1len a1v unfolding e
    by (auto simp: ps_wf_def less_Suc_eq)
qed

lemma createParticle_wf_effect:
  assumes wf: "ps_wf ps"
    and c: "createParticle px py options r ps = (a, r', ps')"
  shows "ps_wf ps' \<and> particles ps' \<noteq> [] \<and> last (particles ps') = a
     \<and> set (particles ps') \<subseteq> insert a (set (particles ps))
     \<and> a < length (particleHeap ps')
     \<and> p_x (particleHeap ps' ! a) = px \<and> p_y (particleHeap ps' ! a) = py
     \<and> length (particleHeap ps) \<le> length (particleHeap ps')
     \<and> (\<forall>b<length (particleHeap ps). b \<noteq> a \<longrightarrow> particleHeap ps' ! b = particleHeap ps ! b)
     \<and> (\<forall>b<length (particleHeap ps'). b \<noteq> a \<longrightarrow> b < length (particleHeap ps))"
proof (cases "length (particles ps) < CONFIG_particles_maxActiveParticles")
  case True
  from createParticle_below[OF wf c True] show ?thesis
    by (auto simp: Particle_init_position)
next
  case False
  then have ne: "particles ps \<noteq> []" by (auto simp: CONFIG_particles_maxActiveParticles_def)
  let ?ps1 = "removeOldestParticle ps"
  have wf1: "ps_wf ?ps1" by (rule removeOldestParticle_wf[OF wf ne])
  have r1: "?ps1 = ps\<lparr>particles := tl (particles ps),
        particlePool := (particlePool ps)\<lparr>pool := pool (particlePool ps) @ [hd (particles ps)]\<rparr>,
        particleHeap := (particleHeap ps)[hd (particles ps) :=
                           Particle_reset (particleHeap ps ! hd (particles ps))]\<rparr>"
    by (rule removeOldestParticle_eq[OF wf])
  from wf1 have cf: "createFn (particlePool ?ps1) = (\<lambda>h. (length h, h @ [Particle_new]))"
    by (simp add: ps_wf_def particle_createFn_eq)
  have g: "ObjectPool_get (particlePool ?ps1) (particleHeap ?ps1)
        = (hd (particles ps), particlePool ps, particleHeap ?ps1)"
    by (simp add: list_get[OF cf]) (simp add: r1)
  have hd_in: "hd (particles ps) \<in> set (particles ps)" using ne by simp
  have hd_lt: "hd (particles ps) < length (particleHeap ps)"
    using wf hd_in unfolding ps_wf_def pool_inv_def by auto
  have e: "a = hd (particles ps)"
     "ps' = ?ps1\<lparr>particles := tl (particles ps) @ [hd (particles ps)],
              particlePool := particlePool ps,
              particleHeap := (particleHeap ?ps1)[hd (particles ps) :=
                 fst (Particle_init px py options r (particleHeap ?ps1 ! hd (particles ps)))]\<rparr>"
    using c False by (auto simp: createParticle_eq Let_def g removeOldestParticle_fields)
  have inv': "pool_inv (tl (particles ps) @ [hd (particles ps)]) (pool (particlePool ps))
                (length (particleHeap ps))"
    using wf ne unfolding ps_wf_def pool_inv_def by (cases "particles ps") auto
  have sub: "set (tl (particles ps)) \<subseteq> set (particles ps)"
    using ne by (cases "particles ps") auto
  show ?thesis
    unfolding e using wf inv' hd_lt sub
    by (auto simp: ps_wf_def r1 Particle_init_position)
qed


subsection \<open>Clearing a manager\<close>

lemma ShapeManager_clear_eq:
  "shapes (ShapeManager_clear sm) = []"
  "pool (shapePool (ShapeManager_clear sm)) = pool (shapePool sm) @ shapes sm"
  "createFn (shapePool (ShapeManager_clear sm)) = createFn (shapePool sm)"
  "resetFn (shapePool (ShapeManager_clear sm)) = resetFn (shapePool sm)"
proof -
  obtain p h where f: "js_forEach (\<lambda>shape (p, h). ObjectPool_release shape p h) (shapes sm)
             (shapePool sm, shapeHeap sm) = (p, h)"
    by (cases "js_forEach (\<lambda>shape (p, h). ObjectPool_release shape p h) (shapes sm)
             (shapePool sm, shapeHeap sm)")
  from forEach_release[OF f]
  show "shapes (ShapeManager_clear sm) = []"
    "pool (shapePool (ShapeManager_clear sm)) = pool (shapePool sm) @ shapes sm"
    "createFn (shapePool (ShapeManager_clear sm)) = createFn (shapePool sm)"
    "resetFn (shapePool (ShapeManager_clear sm)) = resetFn (shapePool sm)"
    by (simp_all add: ShapeManager_clear_def f)
qed

lemma ShapeManager_clear_idem:
  "ShapeManager_clear (ShapeManager_clear sm) = ShapeManager_clear sm"
proof -
  have "ShapeManager_clear sm' = sm'" if "shapes sm' = []" for sm'
    using that by (simp add: ShapeManager_clear_def)
  then show ?thesis by (simp add: ShapeManager_clear_eq)
qed

lemma ShapeManager_clear_wf:
  assumes "sm_wf sm"
  shows "sm_wf (ShapeManager_clear sm)"
proof -
  obtain p h where f: "js_forEach (\<lambda>shape (p, h). ObjectPool_release shape p h) (shapes sm)
             (shapePool sm, shapeHeap sm) = (p, h)"
    by (cases "js_forEach (\<lambda>shape (p, h). ObjectPool_release shape p h) (shapes sm)
             (shapePool sm, shapeHeap sm)")
  have rf: "resetFn (shapePool sm) = Some (\<lambda>a h. h[a := Shape_reset (h ! a)])"
    using assms by (simp add: sm_wf_def shape_resetFn_eq)
  have len: "length h = length (shapeHeap sm)"
    by (rule forEach_release_length[OF rf f])
  have "pool_inv [] (pool (shapePool sm) @ shapes sm) (length (shapeHeap sm))"
    using assms by (simp add: sm_wf_def pool_inv_clear)
  with forEach_release[OF f] assms len show ?thesis
    by (simp add: sm_wf_def ShapeManager_clear_def f)
qed

lemma ParticleSystem_clear_eq:
  "particles (ParticleSystem_clear ps) = []"
  "pool (particlePool (ParticleSystem_clear ps)) = pool (particlePool ps) @ particles ps"
  "createFn (particlePool (ParticleSystem_clear ps)) = createFn (particlePool ps)"
  "resetFn (particlePool (ParticleSystem_clear ps)) = resetFn (particlePool ps)"
proof -
  obtain p h where f: "js_forEach (\<lambda>particle (p, h). ObjectPool_release particle p h)
             (particles ps) (particlePool ps, particleHeap ps) = (p, h)"
    by (cases "js_forEach (\<lambda>particle (p, h). ObjectPool_release particle p h)
             (particles ps) (particlePool ps, particleHeap ps)")
  from forEach_release[OF f]
  show "particles (ParticleSystem_clear ps) = []"
    "pool (particlePool (ParticleSystem_clear ps)) = pool (particlePool ps) @ particles ps"
    "createFn (particlePool (ParticleSystem_clear ps)) = createFn (particlePool ps)"
    "resetFn (particlePool (ParticleSystem_clear ps)) = resetFn (particlePool ps)"
    by (simp_all add: ParticleSystem_clear_def f)
qed

lemma ParticleSystem_clear_idem:
  "ParticleSystem_clear (ParticleSystem_clear ps) = ParticleSystem_clear ps"
proof -
  have "ParticleSystem_clear ps' = ps'" if "particles ps' = []" for ps'
    using that by (simp add: ParticleSystem_clear_def)
  then show ?thesis by (simp add: ParticleSystem_clear_eq)
qed

lemma ParticleSystem_clear_wf:
  assumes "ps_wf ps"
  shows "ps_wf (ParticleSystem_clear ps)"
proof -
  obtain p h where f: "js_forEach (\<lambda>particle (p, h). ObjectPool_release particle p h)
             (particles ps) (particlePool ps, particleHeap ps) = (p, h)"
    by (cases "js_forEach (\<lambda>particle (p, h). ObjectPool_release particle p h)
             (particles ps) (particlePool ps, particleHeap ps)")
  have rf: "resetFn (particlePool ps) = Some (\<lambda>a h. h[a := Particle_reset (h ! a)])"
    using assms by (simp add: ps_wf_def particle_resetFn_eq)
  have len: "length h = length (particleHeap ps)"
    by (rule forEach_release_length[OF rf f])
  have "pool_inv [] (pool (particlePool ps) @ particles ps) (length (particleHeap ps))"
    using assms by (simp add: ps_wf_def pool_inv_clear)
  with forEach_release[OF f] assms len show ?thesis
    by (simp add: ps_wf_def ParticleSystem_clear_def f)
qed


text \<open>
  C7.  After \<open>clear\<close>, and after a second \<open>clear\<close>, the live collection is empty.
  The first call pushes every live entity on the free-list once, in order; the second
  call releases nothing and changes nothing.  So from a well-formed manager (no address
  twice among the live and the free ones) the free-list after both calls has no
  address twice, and the manager is well formed again.
\<close>

theorem clear_twice:
  "shapes (ShapeManager_clear sm) = []
   \<and> shapes (ShapeManager_clear (ShapeManager_clear sm)) = []
   \<and> pool (shapePool (ShapeManager_clear sm)) = pool (shapePool sm) @ shapes sm
   \<and> pool (shapePool (ShapeManager_clear (ShapeManager_clear sm)))
       = pool (shapePool sm) @ shapes sm
   \<and> ShapeManager_clear (ShapeManager_clear sm) = ShapeManager_clear sm
   \<and> (sm_wf sm \<longrightarrow> sm_wf (ShapeManager_clear (ShapeManager_clear sm))
        \<and> distinct (pool (shapePool (ShapeManager_clear (ShapeManager_clear sm)))))
   \<and> particles (ParticleSystem_clear ps) = []
   \<and> particles (ParticleSystem_clear (ParticleSystem_clear ps)) = []
   \<and> pool (particlePool (ParticleSystem_clear ps)) = pool (particlePool ps) @ particles ps
   \<and> pool (particlePool (ParticleSystem_clear (ParticleSystem_clear ps)))
       = pool (particlePool ps) @ particles ps
   \<and> ParticleSystem_clear (ParticleSystem_clear ps) = ParticleSystem_clear ps
   \<and> (ps_wf ps \<longrightarrow> ps_wf (ParticleSystem_clear (ParticleSystem_clear ps))
        \<and> distinct (pool (particlePool (ParticleSystem_clear (ParticleSystem_clear ps)))))"
proof -
  have s: "sm_wf (ShapeManager_clear sm) \<and> distinct (pool (shapePool (ShapeManager_clear sm)))"
    if "sm_wf sm"
    using ShapeManager_clear_wf[OF that] by (simp add: sm_wf_def pool_inv_def)
  have p: "ps_wf (ParticleSystem_clear ps)
       \<and> distinct (pool (particlePool (ParticleSystem_clear ps)))" if "ps_wf ps"
    using ParticleSystem_clear_wf[OF that] by (simp add: ps_wf_def pool_inv_def)
  show ?thesis
    using s p
    by (simp add: ShapeManager_clear_idem ParticleSystem_clear_idem ShapeManager_clear_eq
          ParticleSystem_clear_eq)
qed

theorem clear_twice_witness:
  "shapes (ShapeManager_clear (ShapeManager_clear
      \<lparr>sm_canvas = \<lparr>cv_width = 800, cv_height = 600, cv_rect_width = 800, cv_rect_height = 600\<rparr>,
       shapes = [0, 1],
       shapePool = \<lparr>createFn = shape_createFn, resetFn = Some shape_resetFn, pool = [2]\<rparr>,
       shapeHeap = [Shape_new, Shape_new, Shape_new]\<rparr>)) = []
   \<and> pool (shapePool (ShapeManager_clear (ShapeManager_clear
      \<lparr>sm_canvas = \<lparr>cv_width = 800, cv_height = 600, cv_rect_width = 800, cv_rect_height = 600\<rparr>,
       shapes = [0, 1],
       shapePool = \<lparr>createFn = shape_createFn, resetFn = Some shape_resetFn, pool = [2]\<rparr>,
       shapeHeap = [Shape_new, Shape_new, Shape_new]\<rparr>))) = [2, 0, 1]
   \<and> particles (ParticleSystem_clear (ParticleSystem_clear
      ((ParticleSystem_new
          \<lparr>cv_width = 800, cv_height = 600, cv_rect_width = 800, cv_rect_height = 600\<rparr>)
        \<lparr>particles := [49, 48],
         particlePool := \<lparr>createFn = particle_createFn, resetFn = Some particle_resetFn,
                          pool = [0..<48]\<rparr>\<rparr>))) = []
   \<and> pool (particlePool (ParticleSystem_clear (ParticleSystem_clear
      ((ParticleSystem_new
          \<lparr>cv_width = 800, cv_height = 600, cv_rect_width = 800, cv_rect_height = 600\<rparr>)
        \<lparr>particles := [49, 48],
         particlePool := \<lparr>createFn = particle_createFn, resetFn = Some particle_resetFn,
                          pool = [0..<48]\<rparr>\<rparr>)))) = [0..<48] @ [49, 48]"
  using clear_twice
    [of "\<lparr>sm_canvas = \<lparr>cv_width = 800, cv_height = 600, cv_rect_width = 800, cv_rect_height = 600\<rparr>,
       shapes = [0, 1],
       shapePool = \<lparr>createFn = shape_createFn, resetFn = Some shape_resetFn, pool = [2]\<rparr>,
       shapeHeap = [Shape_new, Shape_new, Shape_new]\<rparr>"
      "(ParticleSystem_new
          \<lparr>cv_width = 800, cv_height = 600, cv_rect_width = 800, cv_rect_height = 600\<rparr>)
        \<lparr>particles := [49, 48],
         particlePool := \<lparr>createFn = particle_createFn, resetFn = Some particle_resetFn,
                          pool = [0..<48]\<rparr>\<rparr>"]
  by simp


subsection \<open>Updating the managers\<close>

lemma ShapeManager_update_cb_eq:
  "ShapeManager_update_cb dt now a (p, h) =
      (snd (Shape_update dt now (h ! a)),
       if \<not> snd (Shape_update dt now (h ! a))
       then ObjectPool_release a p (h[a := fst (Shape_update dt now (h ! a))])
       else (p, h[a := fst (Shape_update dt now (h ! a))]))"
  by (simp add: ShapeManager_update_cb_def case_prod_beta Let_def)

lemma ParticleSystem_update_cb_eq:
  "ParticleSystem_update_cb dt a (p, h) =
      (snd (Particle_update dt (h ! a)),
       if \<not> snd (Particle_update dt (h ! a))
       then ObjectPool_release a p (h[a := fst (Particle_update dt (h ! a))])
       else (p, h[a := fst (Particle_update dt (h ! a))]))"
  by (simp add: ParticleSystem_update_cb_def case_prod_beta Let_def)

lemma ParticleSystem_offScreen_cb_eq:
  "ParticleSystem_offScreen_cb canvas a (p, h) =
      (snd ((\<lambda>q. (q, \<not> offScreen canvas q)) (h ! a)),
       if \<not> snd ((\<lambda>q. (q, \<not> offScreen canvas q)) (h ! a))
       then ObjectPool_release a p (h[a := fst ((\<lambda>q. (q, \<not> offScreen canvas q)) (h ! a))])
       else (p, h[a := fst ((\<lambda>q. (q, \<not> offScreen canvas q)) (h ! a))]))"
  by (simp add: ParticleSystem_offScreen_cb_def)

lemma ShapeManager_update_eq:
  assumes wf: "sm_wf sm"
  shows "shapes (ShapeManager_update dt now sm)
           = filter (\<lambda>a. snd (Shape_update dt now (shapeHeap sm ! a))) (shapes sm)"
    "pool (shapePool (ShapeManager_update dt now sm))
           = pool (shapePool sm)
             @ filter (\<lambda>a. \<not> snd (Shape_update dt now (shapeHeap sm ! a))) (shapes sm)"
    "sm_wf (ShapeManager_update dt now sm)"
proof -
  obtain kept p h where f: "js_filter (ShapeManager_update_cb dt now) (shapes sm)
             (shapePool sm, shapeHeap sm) = (kept, p, h)"
    by (cases "js_filter (ShapeManager_update_cb dt now) (shapes sm)
             (shapePool sm, shapeHeap sm)")
  have rf: "resetFn (shapePool sm) = Some (\<lambda>a h. h[a := Shape_reset (h ! a)])"
    using wf by (simp add: sm_wf_def shape_resetFn_eq)
  have d: "distinct (shapes sm)" and lt: "\<forall>a\<in>set (shapes sm). a < length (shapeHeap sm)"
    and inv: "pool_inv (shapes sm) (pool (shapePool sm)) (length (shapeHeap sm))"
    using wf by (simp_all add: sm_wf_def pool_inv_def)
  note g = filter_release_generic[where upd = "Shape_update dt now" and f = Shape_reset,
      OF ShapeManager_update_cb_eq rf d lt f]
  have u: "ShapeManager_update dt now sm = sm\<lparr>shapes := kept, shapePool := p, shapeHeap := h\<rparr>"
    by (simp add: ShapeManager_update_def f)
  show "shapes (ShapeManager_update dt now sm)
           = filter (\<lambda>a. snd (Shape_update dt now (shapeHeap sm ! a))) (shapes sm)"
    "pool (shapePool (ShapeManager_update dt now sm))
           = pool (shapePool sm)
             @ filter (\<lambda>a. \<not> snd (Shape_update dt now (shapeHeap sm ! a))) (shapes sm)"
    using g by (simp_all add: u)
  show "sm_wf (ShapeManager_update dt now sm)"
    using g wf pool_inv_filter[OF inv, of "\<lambda>a. snd (Shape_update dt now (shapeHeap sm ! a))"]
    by (simp add: u sm_wf_def)
qed

text \<open>The two filters of the particle system, from a well-formed state.\<close>

lemma particle_filters_eq:
  assumes wf: "ps_wf ps"
    and f1: "js_filter (ParticleSystem_update_cb dt) (particles ps)
             (particlePool ps, particleHeap ps) = (kept1, p1, h1)"
    and f2: "js_filter (ParticleSystem_offScreen_cb canvas) kept1 (p1, h1) = (kept2, p2, h2)"
  shows "kept2 = filter (\<lambda>a. snd (Particle_update dt (particleHeap ps ! a))
                      \<and> \<not> offScreen canvas (fst (Particle_update dt (particleHeap ps ! a))))
                  (particles ps)"
    "pool p2 = pool (particlePool ps)
           @ filter (\<lambda>a. \<not> snd (Particle_update dt (particleHeap ps ! a))) (particles ps)
           @ filter (\<lambda>a. snd (Particle_update dt (particleHeap ps ! a))
                      \<and> offScreen canvas (fst (Particle_update dt (particleHeap ps ! a))))
               (particles ps)"
    "createFn p2 = createFn (particlePool ps)" "resetFn p2 = resetFn (particlePool ps)"
    "length h2 = length (particleHeap ps)"
proof -
  let ?alive = "\<lambda>a. snd (Particle_update dt (particleHeap ps ! a))"
  let ?off = "\<lambda>a. offScreen canvas (fst (Particle_update dt (particleHeap ps ! a)))"
  have rf: "resetFn (particlePool ps) = Some (\<lambda>a h. h[a := Particle_reset (h ! a)])"
    using wf by (simp add: ps_wf_def particle_resetFn_eq)
  have d: "distinct (particles ps)"
    and lt: "\<forall>a\<in>set (particles ps). a < length (particleHeap ps)"
    using wf by (simp_all add: ps_wf_def pool_inv_def)
  note g1 = filter_release_generic[where upd = "Particle_update dt" and f = Particle_reset,
      OF ParticleSystem_update_cb_eq rf d lt f1]
  have k1: "kept1 = filter ?alive (particles ps)" using g1 by simp
  have rf1: "resetFn p1 = Some (\<lambda>a h. h[a := Particle_reset (h ! a)])"
    using g1 rf by simp
  have d1: "distinct kept1" using d by (simp add: k1)
  have lt1: "\<forall>a\<in>set kept1. a < length h1" using lt g1 by (simp add: k1)
  note g2 = filter_release_generic[where upd = "\<lambda>q. (q, \<not> offScreen canvas q)"
      and f = Particle_reset, OF ParticleSystem_offScreen_cb_eq rf1 d1 lt1 f2]
  have h1a: "h1 ! a = fst (Particle_update dt (particleHeap ps ! a))" if "a \<in> set kept1" for a
    using g1 that by (simp add: k1)
  have k2: "kept2 = filter (\<lambda>a. \<not> offScreen canvas (h1 ! a)) kept1" using g2 by simp
  have k2': "kept2 = filter (\<lambda>a. \<not> ?off a) kept1"
    unfolding k2 by (rule filter_cong) (simp_all add: h1a)
  have pl2: "pool p2 = pool p1 @ filter (\<lambda>a. offScreen canvas (h1 ! a)) kept1" using g2 by simp
  have pl2': "pool p2 = pool p1 @ filter ?off kept1"
    unfolding pl2 by (simp add: h1a cong: filter_cong)
  show "kept2 = filter (\<lambda>a. ?alive a \<and> \<not> ?off a) (particles ps)"
    by (simp add: k2' k1)
  show "pool p2 = pool (particlePool ps) @ filter (\<lambda>a. \<not> ?alive a) (particles ps)
           @ filter (\<lambda>a. ?alive a \<and> ?off a) (particles ps)"
    using g1 by (simp add: pl2' k1 conj_commute)
  show "createFn p2 = createFn (particlePool ps)" "resetFn p2 = resetFn (particlePool ps)"
    "length h2 = length (particleHeap ps)"
    using g1 g2 by simp_all
qed

subsection \<open>The emission loops\<close>

lemma createConstantParticles_loop_Suc:
  "createConstantParticles_loop (Suc n) r ps =
     (let c = createParticle
                (max 0 (min (mouseX ps + cos (randomBetween (r 0) 0 (pi * 2))
                                          * randomBetween (r 1) 10 50)
                            (cv_width (ps_canvas ps))))
                (max 0 (min (mouseY ps + sin (randomBetween (r 0) 0 (pi * 2))
                                          * randomBetween (r 1) 10 50)
                            (cv_height (ps_canvas ps))))
                \<lparr>po_type = js_index (constantParticleTypes ps)
                             \<lfloor>r 2 * real (length (constantParticleTypes ps))\<rfloor>,
                 po_isClickParticle = Some False, po_burstIntensity = None\<rparr>
                (\<lambda>k. r (k + 3)) ps
      in createConstantParticles_loop n (fst (snd c)) (snd (snd c)))"
  by (simp add: Let_def case_prod_beta)

lemma createConstantParticles_loop_inv:
  assumes "ps_wf ps"
  shows "ps_wf (snd (createConstantParticles_loop n r ps))
     \<and> ps_canvas (snd (createConstantParticles_loop n r ps)) = ps_canvas ps
     \<and> (0 \<le> cv_width (ps_canvas ps) \<and> 0 \<le> cv_height (ps_canvas ps) \<longrightarrow>
         (\<forall>a\<in>set (particles (snd (createConstantParticles_loop n r ps))).
            (a \<in> set (particles ps)
             \<and> particleHeap (snd (createConstantParticles_loop n r ps)) ! a = particleHeap ps ! a)
            \<or> inCanvas (ps_canvas ps)
                 (particleHeap (snd (createConstantParticles_loop n r ps)) ! a)))"
  using assms
proof (induction n arbitrary: r ps)
  case 0
  then show ?case by simp
next
  case (Suc n)
  let ?cx = "max 0 (min (mouseX ps + cos (randomBetween (r 0) 0 (pi * 2))
                                          * randomBetween (r 1) 10 50)
                            (cv_width (ps_canvas ps)))"
  let ?cy = "max 0 (min (mouseY ps + sin (randomBetween (r 0) 0 (pi * 2))
                                          * randomBetween (r 1) 10 50)
                            (cv_height (ps_canvas ps)))"
  let ?o = "\<lparr>po_type = js_index (constantParticleTypes ps)
                             \<lfloor>r 2 * real (length (constantParticleTypes ps))\<rfloor>,
                 po_isClickParticle = Some False, po_burstIntensity = None\<rparr>"
  obtain a1 r1 ps1 where c: "createParticle ?cx ?cy ?o (\<lambda>k. r (k + 3)) ps = (a1, r1, ps1)"
    by (cases "createParticle ?cx ?cy ?o (\<lambda>k. r (k + 3)) ps")
  note e = createParticle_wf_effect[OF Suc.prems c]
  have cv1: "ps_canvas ps1 = ps_canvas ps"
    using createParticle_fields(1)[of ?cx ?cy ?o "\<lambda>k. r (k + 3)" ps, unfolded c] by simp
  have wf1: "ps_wf ps1" using e by simp
  note IH = Suc.IH[OF wf1, of r1]
  have step: "createConstantParticles_loop (Suc n) r ps = createConstantParticles_loop n r1 ps1"
    by (simp only: createConstantParticles_loop_Suc Let_def c fst_conv snd_conv)
  let ?ps' = "snd (createConstantParticles_loop n r1 ps1)"
  have inc: "(a \<in> set (particles ps) \<and> particleHeap ?ps' ! a = particleHeap ps ! a)
            \<or> inCanvas (ps_canvas ps) (particleHeap ?ps' ! a)"
    if dims: "0 \<le> cv_width (ps_canvas ps)" "0 \<le> cv_height (ps_canvas ps)"
      and a: "a \<in> set (particles ?ps')" for a
  proof -
    from IH dims a cv1
    consider (old) "a \<in> set (particles ps1)" "particleHeap ?ps' ! a = particleHeap ps1 ! a"
      | (new) "inCanvas (ps_canvas ps) (particleHeap ?ps' ! a)"
      by auto
    then show ?thesis
    proof cases
      case old
      show ?thesis
      proof (cases "a = a1")
        case True
        have "inCanvas (ps_canvas ps) (particleHeap ps1 ! a1)"
          using e dims by (simp add: inCanvas_def)
        with old True show ?thesis by simp
      next
        case False
        with old e have in_ps: "a \<in> set (particles ps)" by auto
        then have "a < length (particleHeap ps)"
          using Suc.prems unfolding ps_wf_def pool_inv_def by auto
        with e False have "particleHeap ps1 ! a = particleHeap ps ! a" by simp
        with old in_ps show ?thesis by simp
      qed
    next
      case new
      then show ?thesis by simp
    qed
  qed
  show ?case
    unfolding step using IH cv1 inc by auto
qed

lemma createConstantParticles_inv:
  assumes "ps_wf ps"
  shows "ps_wf (snd (createConstantParticles now r ps))"
    "ps_canvas (snd (createConstantParticles now r ps)) = ps_canvas ps"
    "0 \<le> cv_width (ps_canvas ps) \<Longrightarrow> 0 \<le> cv_height (ps_canvas ps) \<Longrightarrow>
       a \<in> set (particles (snd (createConstantParticles now r ps))) \<Longrightarrow>
         (a \<in> set (particles ps)
          \<and> particleHeap (snd (createConstantParticles now r ps)) ! a = particleHeap ps ! a)
         \<or> inCanvas (ps_canvas ps) (particleHeap (snd (createConstantParticles now r ps)) ! a)"
proof -
  let ?ps0 = "ps\<lparr>lastConstantEmitTime := now\<rparr>"
  have wf0: "ps_wf ?ps0" using assms by (simp add: ps_wf_def)
  note l = createConstantParticles_loop_inv[OF wf0,
      of "nat (randomIntBetween (rng_head r) 1 3)" "rng_tail r"]
  show "ps_wf (snd (createConstantParticles now r ps))"
    "ps_canvas (snd (createConstantParticles now r ps)) = ps_canvas ps"
    using assms l by (simp_all add: createConstantParticles_def Let_def)
  show "(a \<in> set (particles ps)
          \<and> particleHeap (snd (createConstantParticles now r ps)) ! a = particleHeap ps ! a)
         \<or> inCanvas (ps_canvas ps) (particleHeap (snd (createConstantParticles now r ps)) ! a)"
    if "0 \<le> cv_width (ps_canvas ps)" "0 \<le> cv_height (ps_canvas ps)"
      "a \<in> set (particles (snd (createConstantParticles now r ps)))"
    using that l by (auto simp: createConstantParticles_def Let_def split: if_splits)
qed

lemma createClickEffect_loop_Suc:
  "createClickEffect_loop (Suc n) px py effectIntensity particleTypes r ps =
     (let c = createParticle px py
                \<lparr>po_type = js_index particleTypes \<lfloor>r 0 * real (length particleTypes)\<rfloor>,
                 po_isClickParticle = Some True, po_burstIntensity = Some effectIntensity\<rparr>
                (\<lambda>k. r (k + 1)) ps
      in createClickEffect_loop n px py effectIntensity particleTypes (fst (snd c)) (snd (snd c)))"
  by (simp add: Let_def case_prod_beta)



lemma ParticleSystem_update_eq:
  assumes wf: "ps_wf ps"
  shows "particles (snd (ParticleSystem_update dt now r ps))
      = filter (\<lambda>a. snd (Particle_update dt
                            (particleHeap (snd (createConstantParticles now r ps)) ! a))
                  \<and> \<not> offScreen (ps_canvas ps)
                        (fst (Particle_update dt
                            (particleHeap (snd (createConstantParticles now r ps)) ! a))))
          (particles (snd (createConstantParticles now r ps)))"
    "pool (particlePool (snd (ParticleSystem_update dt now r ps)))
      = pool (particlePool (snd (createConstantParticles now r ps)))
        @ filter (\<lambda>a. \<not> snd (Particle_update dt
                            (particleHeap (snd (createConstantParticles now r ps)) ! a)))
            (particles (snd (createConstantParticles now r ps)))
        @ filter (\<lambda>a. snd (Particle_update dt
                            (particleHeap (snd (createConstantParticles now r ps)) ! a))
                  \<and> offScreen (ps_canvas ps)
                        (fst (Particle_update dt
                            (particleHeap (snd (createConstantParticles now r ps)) ! a))))
            (particles (snd (createConstantParticles now r ps)))"
    "ps_wf (snd (ParticleSystem_update dt now r ps))"
proof -
  obtain r1 ps1 where c: "createConstantParticles now r ps = (r1, ps1)"
    by (cases "createConstantParticles now r ps")
  have wf1: "ps_wf ps1" and cv1: "ps_canvas ps1 = ps_canvas ps"
    using createConstantParticles_inv(1,2)[OF wf, of now r] by (simp_all add: c)
  obtain kept1 p1 h1 where f1: "js_filter (ParticleSystem_update_cb dt) (particles ps1)
             (particlePool ps1, particleHeap ps1) = (kept1, p1, h1)"
    by (cases "js_filter (ParticleSystem_update_cb dt) (particles ps1)
             (particlePool ps1, particleHeap ps1)")
  obtain kept2 p2 h2 where
    f2: "js_filter (ParticleSystem_offScreen_cb (ps_canvas ps1)) kept1 (p1, h1) = (kept2, p2, h2)"
    by (cases "js_filter (ParticleSystem_offScreen_cb (ps_canvas ps1)) kept1 (p1, h1)")
  note g = particle_filters_eq[OF wf1 f1 f2]
  have u: "ParticleSystem_update dt now r ps
           = (r1, ps1\<lparr>particles := kept2, particlePool := p2, particleHeap := h2\<rparr>)"
    by (simp add: ParticleSystem_update_def c f1 f2)
  let ?alive = "\<lambda>a. snd (Particle_update dt (particleHeap ps1 ! a))"
  let ?off = "\<lambda>a. offScreen (ps_canvas ps1) (fst (Particle_update dt (particleHeap ps1 ! a)))"
  have inv: "pool_inv (particles ps1) (pool (particlePool ps1)) (length (particleHeap ps1))"
    using wf1 by (simp add: ps_wf_def)
  have inv2: "pool_inv kept2 (pool p2) (length h2)"
    using inv unfolding g pool_inv_def by auto
  show "particles (snd (ParticleSystem_update dt now r ps))
      = filter (\<lambda>a. snd (Particle_update dt
                            (particleHeap (snd (createConstantParticles now r ps)) ! a))
                  \<and> \<not> offScreen (ps_canvas ps)
                        (fst (Particle_update dt
                            (particleHeap (snd (createConstantParticles now r ps)) ! a))))
          (particles (snd (createConstantParticles now r ps)))"
    using g(1) by (simp add: u c cv1)
  show "pool (particlePool (snd (ParticleSystem_update dt now r ps)))
      = pool (particlePool (snd (createConstantParticles now r ps)))
        @ filter (\<lambda>a. \<not> snd (Particle_update dt
                            (particleHeap (snd (createConstantParticles now r ps)) ! a)))
            (particles (snd (createConstantParticles now r ps)))
        @ filter (\<lambda>a. snd (Particle_update dt
                            (particleHeap (snd (createConstantParticles now r ps)) ! a))
                  \<and> offScreen (ps_canvas ps)
                        (fst (Particle_update dt
                            (particleHeap (snd (createConstantParticles now r ps)) ! a))))
            (particles (snd (createConstantParticles now r ps)))"
    using g(2) by (simp add: u c cv1)
  show "ps_wf (snd (ParticleSystem_update dt now r ps))"
    using wf1 g(3,4) inv2 by (simp add: u ps_wf_def)
qed


text \<open>
  C3.  \<open>ShapeManager.update\<close> on a well-formed manager keeps exactly the shapes whose
  \<open>update\<close> reports them alive and pushes the others on the free-list, in this same
  call: a live shape that reports expiry is no longer in the live collection and is in
  the pool when \<open>update\<close> returns.  \<open>ParticleSystem.update\<close> first emits the
  constant particles (nothing, when the emit interval has not passed); of the
  particles then live it keeps exactly those that report alive and whose position after
  the step is not more than 100 pixels outside the canvas, and every other one, expired
  or off screen, has left the live collection and is in the pool when the call returns.
  Both managers are well formed again afterwards.
\<close>

theorem update_releases_expired:
  "(sm_wf sm \<longrightarrow>
      (\<forall>a\<in>set (shapes sm). \<not> snd (Shape_update dt now (shapeHeap sm ! a)) \<longrightarrow>
          a \<notin> set (shapes (ShapeManager_update dt now sm))
        \<and> a \<in> set (pool (shapePool (ShapeManager_update dt now sm))))
    \<and> shapes (ShapeManager_update dt now sm)
         = filter (\<lambda>a. snd (Shape_update dt now (shapeHeap sm ! a))) (shapes sm)
    \<and> pool (shapePool (ShapeManager_update dt now sm))
         = pool (shapePool sm)
           @ filter (\<lambda>a. \<not> snd (Shape_update dt now (shapeHeap sm ! a))) (shapes sm)
    \<and> sm_wf (ShapeManager_update dt now sm))
   \<and> (ps_wf ps \<longrightarrow>
      (\<forall>a\<in>set (particles (snd (createConstantParticles now r ps))).
          \<not> snd (Particle_update dt (particleHeap (snd (createConstantParticles now r ps)) ! a))
          \<or> offScreen (ps_canvas ps)
               (fst (Particle_update dt
                  (particleHeap (snd (createConstantParticles now r ps)) ! a))) \<longrightarrow>
          a \<notin> set (particles (snd (ParticleSystem_update dt now r ps)))
        \<and> a \<in> set (pool (particlePool (snd (ParticleSystem_update dt now r ps)))))
    \<and> particles (snd (ParticleSystem_update dt now r ps))
        = filter (\<lambda>a. snd (Particle_update dt
                            (particleHeap (snd (createConstantParticles now r ps)) ! a))
                  \<and> \<not> offScreen (ps_canvas ps)
                        (fst (Particle_update dt
                            (particleHeap (snd (createConstantParticles now r ps)) ! a))))
            (particles (snd (createConstantParticles now r ps)))
    \<and> (now - lastConstantEmitTime ps < constantEmitRate ps \<longrightarrow>
          snd (createConstantParticles now r ps) = ps)
    \<and> ps_wf (snd (ParticleSystem_update dt now r ps)))"
proof -
  have s: "(\<forall>a\<in>set (shapes sm). \<not> snd (Shape_update dt now (shapeHeap sm ! a)) \<longrightarrow>
          a \<notin> set (shapes (ShapeManager_update dt now sm))
        \<and> a \<in> set (pool (shapePool (ShapeManager_update dt now sm))))
    \<and> shapes (ShapeManager_update dt now sm)
         = filter (\<lambda>a. snd (Shape_update dt now (shapeHeap sm ! a))) (shapes sm)
    \<and> pool (shapePool (ShapeManager_update dt now sm))
         = pool (shapePool sm)
           @ filter (\<lambda>a. \<not> snd (Shape_update dt now (shapeHeap sm ! a))) (shapes sm)
    \<and> sm_wf (ShapeManager_update dt now sm)" if wf: "sm_wf sm"
    using ShapeManager_update_eq[OF wf, of dt now] by simp
  have p: "(\<forall>a\<in>set (particles (snd (createConstantParticles now r ps))).
          \<not> snd (Particle_update dt (particleHeap (snd (createConstantParticles now r ps)) ! a))
          \<or> offScreen (ps_canvas ps)
               (fst (Particle_update dt
                  (particleHeap (snd (createConstantParticles now r ps)) ! a))) \<longrightarrow>
          a \<notin> set (particles (snd (ParticleSystem_update dt now r ps)))
        \<and> a \<in> set (pool (particlePool (snd (ParticleSystem_update dt now r ps)))))
    \<and> particles (snd (ParticleSystem_update dt now r ps))
        = filter (\<lambda>a. snd (Particle_update dt
                            (particleHeap (snd (createConstantParticles now r ps)) ! a))
                  \<and> \<not> offScreen (ps_canvas ps)
                        (fst (Particle_update dt
                            (particleHeap (snd (createConstantParticles now r ps)) ! a))))
            (particles (snd (createConstantParticles now r ps)))
    \<and> (now - lastConstantEmitTime ps < constantEmitRate ps \<longrightarrow>
          snd (createConstantParticles now r ps) = ps)
    \<and> ps_wf (snd (ParticleSystem_update dt now r ps))" if wf: "ps_wf ps"
    using ParticleSystem_update_eq[OF wf, of dt now r]
    by (auto simp: createConstantParticles_def)
  show ?thesis using s p by blast
qed

theorem update_releases_expired_witness:
  "shapes (ShapeManager_update 16 5000
      \<lparr>sm_canvas = \<lparr>cv_width = 800, cv_height = 600, cv_rect_width = 800, cv_rect_height = 600\<rparr>,
       shapes = [0, 1],
       shapePool = \<lparr>createFn = shape_createFn, resetFn = Some shape_resetFn, pool = []\<rparr>,
       shapeHeap = [Shape_new\<lparr>s_isActive := True, s_createdAt := 0\<rparr>,
                    Shape_new\<lparr>s_isActive := True, s_createdAt := 4000\<rparr>]\<rparr>) = [1]
   \<and> pool (shapePool (ShapeManager_update 16 5000
      \<lparr>sm_canvas = \<lparr>cv_width = 800, cv_height = 600, cv_rect_width = 800, cv_rect_height = 600\<rparr>,
       shapes = [0, 1],
       shapePool = \<lparr>createFn = shape_createFn, resetFn = Some shape_resetFn, pool = []\<rparr>,
       shapeHeap = [Shape_new\<lparr>s_isActive := True, s_createdAt := 0\<rparr>,
                    Shape_new\<lparr>s_isActive := True, s_createdAt := 4000\<rparr>]\<rparr>)) = [0]
   \<and> particles (snd (ParticleSystem_update 16 5000 (\<lambda>n. 1 / 2)
      \<lparr>ps_canvas = \<lparr>cv_width = 800, cv_height = 600, cv_rect_width = 800, cv_rect_height = 600\<rparr>,
       particles = [0, 1, 2],
       particlePool = \<lparr>createFn = particle_createFn, resetFn = Some particle_resetFn, pool = []\<rparr>,
       particleHeap =
         [Particle_new\<lparr>p_isActive := True, p_life := 10, p_maxLife := 1000, p_maxSize := 5\<rparr>,
          Particle_new\<lparr>p_x := 100, p_y := 100, p_isActive := True, p_life := 500,
                        p_maxLife := 1000, p_maxSize := 5\<rparr>,
          Particle_new\<lparr>p_x := 2000, p_y := 100, p_isActive := True, p_life := 500,
                        p_maxLife := 1000, p_maxSize := 5\<rparr>],
       mouseX = 400, mouseY = 300, constantEmitRate = 120, lastConstantEmitTime = 5000,
       constantParticleTypes = [''circle'', ''sparkle''], maxClickParticles = 20\<rparr>)) = [1]"
proof -
  let ?cv = "\<lparr>cv_width = 800, cv_height = 600, cv_rect_width = 800, cv_rect_height = 600\<rparr>"
  let ?s0 = "Shape_new\<lparr>s_isActive := True, s_createdAt := 0\<rparr>"
  let ?s1 = "Shape_new\<lparr>s_isActive := True, s_createdAt := 4000\<rparr>"
  let ?sm = "\<lparr>sm_canvas = ?cv, shapes = [0, 1],
       shapePool = \<lparr>createFn = shape_createFn, resetFn = Some shape_resetFn, pool = []\<rparr>,
       shapeHeap = [?s0, ?s1]\<rparr>"
  let ?q0 = "Particle_new\<lparr>p_isActive := True, p_life := 10, p_maxLife := 1000, p_maxSize := 5\<rparr>"
  let ?q1 = "Particle_new\<lparr>p_x := 100, p_y := 100, p_isActive := True, p_life := 500,
                        p_maxLife := 1000, p_maxSize := 5\<rparr>"
  let ?q2 = "Particle_new\<lparr>p_x := 2000, p_y := 100, p_isActive := True, p_life := 500,
                        p_maxLife := 1000, p_maxSize := 5\<rparr>"
  let ?ps = "\<lparr>ps_canvas = ?cv, particles = [0, 1, 2],
       particlePool = \<lparr>createFn = particle_createFn, resetFn = Some particle_resetFn, pool = []\<rparr>,
       particleHeap = [?q0, ?q1, ?q2],
       mouseX = 400, mouseY = 300, constantEmitRate = 120, lastConstantEmitTime = 5000,
       constantParticleTypes = [''circle'', ''sparkle''], maxClickParticles = 20\<rparr>"
  note w = update_releases_expired[where sm = ?sm and dt = 16 and now = 5000 and ps = ?ps
      and r = "\<lambda>n. 1 / 2"]
  have swf: "sm_wf ?sm" by (simp add: sm_wf_def pool_inv_def)
  have pwf: "ps_wf ?ps" by (simp add: ps_wf_def pool_inv_def)
  have e0: "\<not> snd (Shape_update 16 5000 ?s0)"
    by (simp add: Shape_update_def Shape_new_def Shape_reset_def
          CONFIG_shapes_animationDuration_def Let_def)
  have e1: "snd (Shape_update 16 5000 ?s1)"
    by (simp add: Shape_update_def Shape_new_def Shape_reset_def
          CONFIG_shapes_animationDuration_def Let_def)
  have u0: "\<not> snd (Particle_update 16 ?q0)"
    by (simp add: Particle_update_def Particle_new_def Particle_reset_def Let_def)
  have u1: "snd (Particle_update 16 ?q1)" "p_x (fst (Particle_update 16 ?q1)) = 100"
    "p_y (fst (Particle_update 16 ?q1)) = 100"
    by (simp_all add: Particle_update_def Particle_new_def Particle_reset_def Let_def
          updateColor_def)
  have u2: "snd (Particle_update 16 ?q2)" "p_x (fst (Particle_update 16 ?q2)) = 2000"
    by (simp_all add: Particle_update_def Particle_new_def Particle_reset_def Let_def
          updateColor_def)
  have o1: "\<not> offScreen ?cv (fst (Particle_update 16 ?q1))"
    unfolding offScreen_def u1 by simp
  have o2: "offScreen ?cv (fst (Particle_update 16 ?q2))"
    unfolding offScreen_def u2 by simp
  have c: "snd (createConstantParticles 5000 (\<lambda>n. 1 / 2) ?ps) = ?ps"
    by (simp add: createConstantParticles_def)
  note ws = w[THEN conjunct1, THEN mp, OF swf]
  note wp = w[THEN conjunct2, THEN mp, OF pwf]
  have a: "shapes (ShapeManager_update 16 5000 ?sm) = [1]"
    unfolding ws[THEN conjunct2, THEN conjunct1] using e0 e1 by simp
  have b: "pool (shapePool (ShapeManager_update 16 5000 ?sm)) = [0]"
    unfolding ws[THEN conjunct2, THEN conjunct2, THEN conjunct1] using e0 e1 by simp
  have d: "particles (snd (ParticleSystem_update 16 5000 (\<lambda>n. 1 / 2) ?ps)) = [1]"
    unfolding wp[THEN conjunct2, THEN conjunct1] c using u0 u1(1) u2(1) o1 o2 by simp
  show ?thesis using a b d by (intro conjI)
qed

subsection \<open>The capacity of the live collections\<close>

lemma createParticle_length_exact:
  "length (particles (snd (snd (createParticle px py options r ps))))
     = (if length (particles ps) < CONFIG_particles_maxActiveParticles
        then Suc (length (particles ps)) else length (particles ps))"
  by (auto simp: createParticle_eq Let_def removeOldestParticle_fields
        CONFIG_particles_maxActiveParticles_def)

lemma createConstantParticles_loop_length:
  "length (particles ps) \<le> CONFIG_particles_maxActiveParticles \<Longrightarrow>
   length (particles (snd (createConstantParticles_loop n r ps)))
     \<le> CONFIG_particles_maxActiveParticles"
proof (induction n arbitrary: r ps)
  case 0
  then show ?case by simp
next
  case (Suc n)
  have "length (particles (snd (snd (createParticle px py options r' ps))))
          \<le> CONFIG_particles_maxActiveParticles" for px py options r'
    using createParticle_length[of px py options r' ps] Suc.prems by simp
  then show ?case
    by (simp only: createConstantParticles_loop_Suc Let_def) (rule Suc.IH)
qed

lemma createClickEffect_loop_length:
  "length (particles ps) \<le> CONFIG_particles_maxActiveParticles \<Longrightarrow>
   length (particles (snd (createClickEffect_loop n px py ei pts r ps)))
     \<le> CONFIG_particles_maxActiveParticles"
proof (induction n arbitrary: r ps)
  case 0
  then show ?case by simp
next
  case (Suc n)
  have "length (particles (snd (snd (createParticle px py options r' ps))))
          \<le> CONFIG_particles_maxActiveParticles" for options r'
    using createParticle_length[of px py options r' ps] Suc.prems by simp
  then show ?case
    by (simp only: createClickEffect_loop_Suc Let_def) (rule Suc.IH)
qed

text \<open>One round of the burst below capacity, and the loop at capacity.\<close>

lemma createBurst_loop_full:
  "length (particles ps) \<ge> CONFIG_particles_maxActiveParticles \<Longrightarrow>
   createBurst_loop n i count px py r ps = (r, ps)"
  by (cases n) simp_all

lemma createBurst_loop_Suc:
  assumes "length (particles ps) < CONFIG_particles_maxActiveParticles"
  shows "createBurst_loop (Suc n) i count px py r ps =
     (let g = ObjectPool_get (particlePool ps) (particleHeap ps);
          a = fst g; p1 = fst (snd g); h1 = snd (snd g);
          q = fst (Particle_init px py
                 \<lparr>po_type = None, po_isClickParticle = None, po_burstIntensity = None\<rparr>
                 r (h1 ! a))
      in createBurst_loop n (Suc i) count px py (\<lambda>k. r (k + 11))
           (ps\<lparr>particles := particles ps @ [a], particlePool := p1,
               particleHeap := h1[a := q\<lparr>p_vx := cos ((real i / real count) * pi * 2)
                                                 * randomBetween (r 8) 3 8,
                                        p_vy := sin ((real i / real count) * pi * 2)
                                                 * randomBetween (r 8) 3 8,
                                        p_maxSize := p_maxSize q * randomBetween (r 9) 0.8 1.5,
                                        p_hue := randomBetween (r 10) 0 360\<rparr>]\<rparr>))"
proof -
  have snd_init: "snd (Particle_init px py options r p) = (\<lambda>k. r (k + 8))" for options p
    by (simp add: Particle_init_def Let_def)
  have r11: "(\<lambda>k. r (11 + k)) = (\<lambda>k. r (k + 11))" by (rule ext) (simp add: add.commute)
  show ?thesis
    using assms
    by (simp add: Let_def case_prod_beta snd_init r11)
qed

lemma createBurst_loop_length_exact:
  "length (particles ps) \<le> CONFIG_particles_maxActiveParticles \<Longrightarrow>
   length (particles (snd (createBurst_loop n i count px py r ps)))
     = min CONFIG_particles_maxActiveParticles (length (particles ps) + n)
   \<and> take (length (particles ps)) (particles (snd (createBurst_loop n i count px py r ps)))
     = particles ps"
proof (induction n arbitrary: i r ps)
  case 0
  then show ?case by simp
next
  case (Suc n)
  show ?case
  proof (cases "length (particles ps) < CONFIG_particles_maxActiveParticles")
    case True
    let ?g = "ObjectPool_get (particlePool ps) (particleHeap ps)"
    define ps1 where "ps1 = ps\<lparr>particles := particles ps @ [fst ?g], particlePool := fst (snd ?g),
       particleHeap := (snd (snd ?g))[fst ?g :=
          (fst (Particle_init px py
                 \<lparr>po_type = None, po_isClickParticle = None, po_burstIntensity = None\<rparr>
                 r (snd (snd ?g) ! fst ?g)))
           \<lparr>p_vx := cos ((real i / real count) * pi * 2) * randomBetween (r 8) 3 8,
            p_vy := sin ((real i / real count) * pi * 2) * randomBetween (r 8) 3 8,
            p_maxSize := p_maxSize (fst (Particle_init px py
                 \<lparr>po_type = None, po_isClickParticle = None, po_burstIntensity = None\<rparr>
                 r (snd (snd ?g) ! fst ?g))) * randomBetween (r 9) 0.8 1.5,
            p_hue := randomBetween (r 10) 0 360\<rparr>]\<rparr>"
    have step: "createBurst_loop (Suc n) i count px py r ps
                = createBurst_loop n (Suc i) count px py (\<lambda>k. r (k + 11)) ps1"
      unfolding createBurst_loop_Suc[OF True] Let_def ps1_def ..
    have l1: "particles ps1 = particles ps @ [fst ?g]" by (simp add: ps1_def)
    have le1: "length (particles ps1) \<le> CONFIG_particles_maxActiveParticles"
      using True by (simp add: l1)
    note IH = Suc.IH[OF le1, of "Suc i" "\<lambda>k. r (k + 11)"]
    have "take (length (particles ps))
            (take (length (particles ps1))
               (particles (snd (createBurst_loop n (Suc i) count px py (\<lambda>k. r (k + 11)) ps1))))
          = take (length (particles ps)) (particles ps1)"
      using IH by simp
    then have pre: "take (length (particles ps))
               (particles (snd (createBurst_loop n (Suc i) count px py (\<lambda>k. r (k + 11)) ps1)))
          = particles ps"
      by (simp add: l1 min_def)
    show ?thesis unfolding step using IH pre by (simp add: l1)
  next
    case False
    then have full: "length (particles ps) \<ge> CONFIG_particles_maxActiveParticles" by simp
    show ?thesis using Suc.prems full by (simp add: createBurst_loop_full[OF full] del: createBurst_loop.simps)
  qed
qed

lemma createBurst_length:
  "length (particles ps) \<le> CONFIG_particles_maxActiveParticles \<Longrightarrow>
   length (particles (snd (createBurst px py count sortDraws r ps)))
     \<le> CONFIG_particles_maxActiveParticles"
  using createBurst_loop_length_exact[of ps count 0 count px py "\<lambda>k. r (k + sortDraws)"]
  by (simp add: createBurst_def)

lemma spawnParticle_length:
  assumes "length (particles ps) \<le> CONFIG_particles_maxActiveParticles"
  shows "length (particles (snd (spawnParticle q r ps))) \<le> CONFIG_particles_maxActiveParticles"
proof (cases q)
  case (SpawnParticle px py options)
  then show ?thesis
    using createParticle_length[of px py options r ps] assms by (simp add: case_prod_beta)
next
  case (SpawnBurst px py count sortDraws)
  then show ?thesis using createBurst_length[OF assms] by simp
next
  case (SpawnClickEffect px py button)
  then show ?thesis
    using createClickEffect_loop_length[OF assms]
    by (simp add: createClickEffect_def Let_def)
next
  case (SpawnConstantParticles now)
  have "length (particles (ps\<lparr>lastConstantEmitTime := now\<rparr>))
          \<le> CONFIG_particles_maxActiveParticles"
    using assms by simp
  from createConstantParticles_loop_length[OF this] SpawnConstantParticles assms
  show ?thesis by (simp add: createConstantParticles_def Let_def)
qed

lemma spawnParticles_length:
  "length (particles ps) \<le> CONFIG_particles_maxActiveParticles \<Longrightarrow>
   length (particles (spawnParticles qs r ps)) \<le> CONFIG_particles_maxActiveParticles"
proof (induction qs arbitrary: r ps)
  case Nil
  then show ?case by simp
next
  case (Cons q qs)
  obtain r' ps' where c: "spawnParticle q r ps = (r', ps')" by (cases "spawnParticle q r ps")
  have "length (particles ps') \<le> CONFIG_particles_maxActiveParticles"
    using spawnParticle_length[OF Cons.prems, of q r] by (simp add: c)
  from Cons.IH[OF this] show ?case by (simp add: c)
qed

lemma spawnParticles_replicate_length:
  "length (particles ps) \<le> CONFIG_particles_maxActiveParticles \<Longrightarrow>
   length (particles (spawnParticles (replicate n (SpawnParticle px py options)) r ps))
     = min CONFIG_particles_maxActiveParticles (length (particles ps) + n)"
proof (induction n arbitrary: r ps)
  case 0
  then show ?case by simp
next
  case (Suc n)
  obtain a r' ps' where c: "createParticle px py options r ps = (a, r', ps')"
    by (cases "createParticle px py options r ps")
  have l: "length (particles ps')
     = (if length (particles ps) < CONFIG_particles_maxActiveParticles
        then Suc (length (particles ps)) else length (particles ps))"
    using createParticle_length_exact[of px py options r ps] by (simp add: c)
  then have "length (particles ps') \<le> CONFIG_particles_maxActiveParticles"
    using Suc.prems by auto
  from Suc.IH[OF this, of r'] l Suc.prems show ?case by (auto simp: c)
qed


text \<open>
  C1, as the code has it.  After any sequence of \<open>createShape\<close> calls on a new manager
  the live collection holds at most 15 shapes, and after any sequence of the four calls
  that spawn particles (\<open>createParticle\<close>, \<open>createBurst\<close>, \<open>createClickEffect\<close>,
  \<open>createConstantParticles\<close>) on a new system, or on any system within the capacity,
  it holds at most 100 particles.  \<open>createShape\<close> and \<open>createParticle\<close> on a full,
  well-formed collection remove the oldest entity and release it to the pool, and the
  new entity is appended: the collection is the old one without its head plus the new
  entity and has the capacity as its length.  For shapes (which throw only for a letter
  key without a character) the evicted shape ends reset on top of the free-list.  For
  particles the spawn is the spawn below capacity on the system in which
  \<open>removeOldestParticle\<close> has shifted the head off and pushed it on the free-list, from
  where the following \<open>get\<close> takes it.  \<open>createBurst\<close> does not evict: on a full
  collection it returns the system as it is, having created nothing, and within the
  capacity it appends particles up to the capacity and keeps every particle that was
  live.
\<close>

theorem spawn_capacity:
  "length (shapes (createShapes ks r (ShapeManager_new canvas))) \<le> CONFIG_shapes_maxActiveShapes
   \<and> CONFIG_shapes_maxActiveShapes = 15
   \<and> (length (shapes sm) \<le> CONFIG_shapes_maxActiveShapes \<longrightarrow>
        length (shapes (snd (snd (createShape keyInfo now r sm)))) \<le> CONFIG_shapes_maxActiveShapes)
   \<and> (sm_wf sm \<and> length (shapes sm) = CONFIG_shapes_maxActiveShapes
        \<and> (ki_type keyInfo = ''letter'' \<longrightarrow> ki_character keyInfo \<noteq> None) \<longrightarrow>
        (\<exists>a. fst (createShape keyInfo now r sm) = Inr a
           \<and> shapes (snd (snd (createShape keyInfo now r sm))) = tl (shapes sm) @ [a])
        \<and> length (shapes (snd (snd (createShape keyInfo now r sm)))) = CONFIG_shapes_maxActiveShapes
        \<and> hd (shapes sm) \<notin> set (shapes (snd (snd (createShape keyInfo now r sm))))
        \<and> last (pool (shapePool (snd (snd (createShape keyInfo now r sm))))) = hd (shapes sm)
        \<and> \<not> s_isActive (shapeHeap (snd (snd (createShape keyInfo now r sm))) ! hd (shapes sm)))
   \<and> length (particles (spawnParticles qs r (ParticleSystem_new canvas)))
        \<le> CONFIG_particles_maxActiveParticles
   \<and> CONFIG_particles_maxActiveParticles = 100
   \<and> (length (particles ps) \<le> CONFIG_particles_maxActiveParticles \<longrightarrow>
        length (particles (snd (spawnParticle q r ps))) \<le> CONFIG_particles_maxActiveParticles
      \<and> length (particles (spawnParticles qs r ps)) \<le> CONFIG_particles_maxActiveParticles
      \<and> length (particles (snd (snd (createParticle px py options r ps))))
          \<le> CONFIG_particles_maxActiveParticles)
   \<and> (ps_wf ps \<and> length (particles ps) = CONFIG_particles_maxActiveParticles \<longrightarrow>
        createParticle px py options r ps
          = createParticle px py options r (removeOldestParticle ps)
        \<and> particles (removeOldestParticle ps) = tl (particles ps)
        \<and> pool (particlePool (removeOldestParticle ps))
             = pool (particlePool ps) @ [hd (particles ps)]
        \<and> particles (snd (snd (createParticle px py options r ps)))
             = tl (particles ps) @ [fst (createParticle px py options r ps)]
        \<and> length (particles (snd (snd (createParticle px py options r ps))))
             = CONFIG_particles_maxActiveParticles)
   \<and> (length (particles ps) \<ge> CONFIG_particles_maxActiveParticles \<longrightarrow>
        createBurst px py count sortDraws r ps = ((\<lambda>k. r (k + sortDraws)), ps))
   \<and> (length (particles ps) \<le> CONFIG_particles_maxActiveParticles \<longrightarrow>
        length (particles (snd (createBurst px py count sortDraws r ps)))
          = min CONFIG_particles_maxActiveParticles (length (particles ps) + count)
      \<and> take (length (particles ps)) (particles (snd (createBurst px py count sortDraws r ps)))
          = particles ps)"
proof -
  have s0: "length (shapes (ShapeManager_new canvas)) \<le> CONFIG_shapes_maxActiveShapes"
    by (simp add: ShapeManager_new_eq)
  have s1: "length (shapes (createShapes ks r (ShapeManager_new canvas)))
            \<le> CONFIG_shapes_maxActiveShapes"
    by (rule createShapes_length[OF s0])
  have s2: "length (shapes (snd (snd (createShape keyInfo now r sm))))
            \<le> CONFIG_shapes_maxActiveShapes"
    if "length (shapes sm) \<le> CONFIG_shapes_maxActiveShapes"
    using createShape_length[of keyInfo now r sm] that by simp
  have s3: "(\<exists>a. fst (createShape keyInfo now r sm) = Inr a
           \<and> shapes (snd (snd (createShape keyInfo now r sm))) = tl (shapes sm) @ [a])
        \<and> length (shapes (snd (snd (createShape keyInfo now r sm)))) = CONFIG_shapes_maxActiveShapes
        \<and> hd (shapes sm) \<notin> set (shapes (snd (snd (createShape keyInfo now r sm))))
        \<and> last (pool (shapePool (snd (snd (createShape keyInfo now r sm))))) = hd (shapes sm)
        \<and> \<not> s_isActive (shapeHeap (snd (snd (createShape keyInfo now r sm))) ! hd (shapes sm))"
    if wf: "sm_wf sm" and full: "length (shapes sm) = CONFIG_shapes_maxActiveShapes"
      and key: "ki_type keyInfo = ''letter'' \<longrightarrow> ki_character keyInfo \<noteq> None"
  proof -
    obtain res r' sm' where c: "createShape keyInfo now r sm = (res, r', sm')"
      by (cases "createShape keyInfo now r sm")
    obtain a where a: "res = Inr a"
    proof (cases res)
      case (Inl e)
      with c have "fst (createShape keyInfo now r sm) = Inl e" by simp
      from createShape_Inl[OF this] key show ?thesis by simp
    next
      case (Inr a)
      then show ?thesis by (rule that)
    qed
    from createShape_at_capacity[OF wf full c[unfolded a]] show ?thesis
      by (simp add: c a)
  qed
  have p0: "length (particles (ParticleSystem_new canvas)) \<le> CONFIG_particles_maxActiveParticles"
    by (simp add: ParticleSystem_new_eq)
  have p1: "length (particles (spawnParticles qs r (ParticleSystem_new canvas)))
        \<le> CONFIG_particles_maxActiveParticles"
    by (rule spawnParticles_length[OF p0])
  have p2: "length (particles (snd (spawnParticle q r ps))) \<le> CONFIG_particles_maxActiveParticles
      \<and> length (particles (spawnParticles qs r ps)) \<le> CONFIG_particles_maxActiveParticles
      \<and> length (particles (snd (snd (createParticle px py options r ps))))
          \<le> CONFIG_particles_maxActiveParticles"
    if le: "length (particles ps) \<le> CONFIG_particles_maxActiveParticles"
    using createParticle_length[of px py options r ps] le
      spawnParticle_length[OF le, of q r] spawnParticles_length[OF le, of qs r]
    by simp
  have p3: "createParticle px py options r ps
          = createParticle px py options r (removeOldestParticle ps)
        \<and> particles (removeOldestParticle ps) = tl (particles ps)
        \<and> pool (particlePool (removeOldestParticle ps))
             = pool (particlePool ps) @ [hd (particles ps)]
        \<and> particles (snd (snd (createParticle px py options r ps)))
             = tl (particles ps) @ [fst (createParticle px py options r ps)]
        \<and> length (particles (snd (snd (createParticle px py options r ps))))
             = CONFIG_particles_maxActiveParticles"
    if wf: "ps_wf ps" and full: "length (particles ps) = CONFIG_particles_maxActiveParticles"
  proof -
    have ne: "particles ps \<noteq> []"
      using full by (auto simp: CONFIG_particles_maxActiveParticles_def)
    have a: "createParticle px py options r ps
          = createParticle px py options r (removeOldestParticle ps)"
      by (rule createParticle_at_capacity[OF full])
    have b: "pool (particlePool (removeOldestParticle ps))
             = pool (particlePool ps) @ [hd (particles ps)]"
      by (simp add: removeOldestParticle_eq[OF wf])
    have c: "particles (snd (snd (createParticle px py options r ps)))
             = tl (particles ps) @ [fst (createParticle px py options r ps)]"
      using full by (simp add: createParticle_eq Let_def removeOldestParticle_fields)
    have d: "length (particles (snd (snd (createParticle px py options r ps))))
             = CONFIG_particles_maxActiveParticles"
      unfolding c using full ne by (simp add: CONFIG_particles_maxActiveParticles_def)
    show ?thesis using a b c d by (simp add: removeOldestParticle_fields)
  qed
  have b1: "createBurst px py count sortDraws r ps = ((\<lambda>k. r (k + sortDraws)), ps)"
    if "length (particles ps) \<ge> CONFIG_particles_maxActiveParticles"
    unfolding createBurst_def by (rule createBurst_loop_full[OF that])
  have b2: "length (particles (snd (createBurst px py count sortDraws r ps)))
          = min CONFIG_particles_maxActiveParticles (length (particles ps) + count)
      \<and> take (length (particles ps)) (particles (snd (createBurst px py count sortDraws r ps)))
          = particles ps"
    if "length (particles ps) \<le> CONFIG_particles_maxActiveParticles"
    unfolding createBurst_def by (rule createBurst_loop_length_exact[OF that])
  have c15: "CONFIG_shapes_maxActiveShapes = 15"
    by (simp add: CONFIG_shapes_maxActiveShapes_def)
  have c100: "CONFIG_particles_maxActiveParticles = 100"
    by (simp add: CONFIG_particles_maxActiveParticles_def)
  show ?thesis
    using s1 c15 s2 s3 p1 c100 p2 p3 b1 b2 by blast
qed

theorem spawn_capacity_witness:
  "length (shapes (snd (snd (createShape
      \<lparr>ki_type = ''space'', ki_character = None, ki_effect = Some ''explosion''\<rparr> 0 (\<lambda>n. 1 / 2)
      \<lparr>sm_canvas = \<lparr>cv_width = 800, cv_height = 600, cv_rect_width = 800, cv_rect_height = 600\<rparr>,
       shapes = [0..<15],
       shapePool = \<lparr>createFn = shape_createFn, resetFn = Some shape_resetFn, pool = []\<rparr>,
       shapeHeap = replicate 15 Shape_new\<rparr>)))) = 15
   \<and> 0 \<notin> set (shapes (snd (snd (createShape
      \<lparr>ki_type = ''space'', ki_character = None, ki_effect = Some ''explosion''\<rparr> 0 (\<lambda>n. 1 / 2)
      \<lparr>sm_canvas = \<lparr>cv_width = 800, cv_height = 600, cv_rect_width = 800, cv_rect_height = 600\<rparr>,
       shapes = [0..<15],
       shapePool = \<lparr>createFn = shape_createFn, resetFn = Some shape_resetFn, pool = []\<rparr>,
       shapeHeap = replicate 15 Shape_new\<rparr>))))
   \<and> last (pool (shapePool (snd (snd (createShape
      \<lparr>ki_type = ''space'', ki_character = None, ki_effect = Some ''explosion''\<rparr> 0 (\<lambda>n. 1 / 2)
      \<lparr>sm_canvas = \<lparr>cv_width = 800, cv_height = 600, cv_rect_width = 800, cv_rect_height = 600\<rparr>,
       shapes = [0..<15],
       shapePool = \<lparr>createFn = shape_createFn, resetFn = Some shape_resetFn, pool = []\<rparr>,
       shapeHeap = replicate 15 Shape_new\<rparr>))))) = 0
   \<and> particles (snd (snd (createParticle 10 20
      \<lparr>po_type = None, po_isClickParticle = None, po_burstIntensity = None\<rparr> (\<lambda>n. 1 / 2)
      \<lparr>ps_canvas = \<lparr>cv_width = 800, cv_height = 600, cv_rect_width = 800, cv_rect_height = 600\<rparr>,
       particles = [0..<100],
       particlePool = \<lparr>createFn = particle_createFn, resetFn = Some particle_resetFn, pool = []\<rparr>,
       particleHeap = replicate 100 Particle_new,
       mouseX = 400, mouseY = 300, constantEmitRate = 120, lastConstantEmitTime = 0,
       constantParticleTypes = [''circle'', ''sparkle''], maxClickParticles = 20\<rparr>)))
     = [1..<100] @ [fst (createParticle 10 20
      \<lparr>po_type = None, po_isClickParticle = None, po_burstIntensity = None\<rparr> (\<lambda>n. 1 / 2)
      \<lparr>ps_canvas = \<lparr>cv_width = 800, cv_height = 600, cv_rect_width = 800, cv_rect_height = 600\<rparr>,
       particles = [0..<100],
       particlePool = \<lparr>createFn = particle_createFn, resetFn = Some particle_resetFn, pool = []\<rparr>,
       particleHeap = replicate 100 Particle_new,
       mouseX = 400, mouseY = 300, constantEmitRate = 120, lastConstantEmitTime = 0,
       constantParticleTypes = [''circle'', ''sparkle''], maxClickParticles = 20\<rparr>)]
   \<and> particles (snd (createBurst 10 20 15 0 (\<lambda>n. 1 / 2)
      \<lparr>ps_canvas = \<lparr>cv_width = 800, cv_height = 600, cv_rect_width = 800, cv_rect_height = 600\<rparr>,
       particles = [0..<100],
       particlePool = \<lparr>createFn = particle_createFn, resetFn = Some particle_resetFn, pool = []\<rparr>,
       particleHeap = replicate 100 Particle_new,
       mouseX = 400, mouseY = 300, constantEmitRate = 120, lastConstantEmitTime = 0,
       constantParticleTypes = [''circle'', ''sparkle''], maxClickParticles = 20\<rparr>))
     = [0..<100]
   \<and> length (particles (spawnParticles
        [SpawnBurst 10 20 15 0, SpawnClickEffect 10 20 0, SpawnConstantParticles 1000]
        (\<lambda>n. 1 / 2)
      \<lparr>ps_canvas = \<lparr>cv_width = 800, cv_height = 600, cv_rect_width = 800, cv_rect_height = 600\<rparr>,
       particles = [0..<100],
       particlePool = \<lparr>createFn = particle_createFn, resetFn = Some particle_resetFn, pool = []\<rparr>,
       particleHeap = replicate 100 Particle_new,
       mouseX = 400, mouseY = 300, constantEmitRate = 120, lastConstantEmitTime = 0,
       constantParticleTypes = [''circle'', ''sparkle''], maxClickParticles = 20\<rparr>)) \<le> 100"
proof -
  let ?sm = "\<lparr>sm_canvas = \<lparr>cv_width = 800, cv_height = 600, cv_rect_width = 800, cv_rect_height = 600\<rparr>,
       shapes = [0..<15],
       shapePool = \<lparr>createFn = shape_createFn, resetFn = Some shape_resetFn, pool = []\<rparr>,
       shapeHeap = replicate 15 Shape_new\<rparr>"
  let ?key = "\<lparr>ki_type = ''space'', ki_character = None, ki_effect = Some ''explosion''\<rparr>"
  let ?ps = "\<lparr>ps_canvas = \<lparr>cv_width = 800, cv_height = 600, cv_rect_width = 800, cv_rect_height = 600\<rparr>,
       particles = [0..<100],
       particlePool = \<lparr>createFn = particle_createFn, resetFn = Some particle_resetFn, pool = []\<rparr>,
       particleHeap = replicate 100 Particle_new,
       mouseX = 400, mouseY = 300, constantEmitRate = 120, lastConstantEmitTime = 0,
       constantParticleTypes = [''circle'', ''sparkle''], maxClickParticles = 20\<rparr>"
  let ?opts = "\<lparr>po_type = None, po_isClickParticle = None, po_burstIntensity = None\<rparr>"
  let ?qs = "[SpawnBurst 10 20 15 0, SpawnClickEffect 10 20 0, SpawnConstantParticles 1000]"
  note w = spawn_capacity
    [where sm = ?sm and keyInfo = ?key and now = 0 and r = "\<lambda>n. 1 / 2" and ps = ?ps
       and px = 10 and py = 20 and options = ?opts and ks = "[]" and qs = ?qs
       and count = 15 and sortDraws = 0 and q = "SpawnBurst 10 20 15 0"
       and canvas = "\<lparr>cv_width = 800, cv_height = 600, cv_rect_width = 800, cv_rect_height = 600\<rparr>"]
  have wf: "sm_wf ?sm"
    by (simp add: sm_wf_def pool_inv_def)
  have full: "length (shapes ?sm) = CONFIG_shapes_maxActiveShapes"
    by (simp add: CONFIG_shapes_maxActiveShapes_def)
  have key: "ki_type ?key = ''letter'' \<longrightarrow> ki_character ?key \<noteq> None"
    by simp
  have pwf: "ps_wf ?ps"
    by (simp add: ps_wf_def pool_inv_def)
  have pfull: "length (particles ?ps) = CONFIG_particles_maxActiveParticles"
    by (simp add: CONFIG_particles_maxActiveParticles_def)
  have ple: "length (particles ?ps) \<le> CONFIG_particles_maxActiveParticles"
    and pge: "length (particles ?ps) \<ge> CONFIG_particles_maxActiveParticles"
    using pfull by simp_all
  have hd0: "hd (shapes ?sm) = 0" by simp
  have tl1: "tl (particles ?ps) = [1..<100]" by (simp add: tl_upt)
  have prem4: "sm_wf ?sm \<and> length (shapes ?sm) = CONFIG_shapes_maxActiveShapes
        \<and> (ki_type ?key = ''letter'' \<longrightarrow> ki_character ?key \<noteq> None)"
    using wf full key by (intro conjI)
  note w4 = w[THEN conjunct2, THEN conjunct2, THEN conjunct2, THEN conjunct1, THEN mp, OF prem4]
  have a1: "length (shapes (snd (snd (createShape ?key 0 (\<lambda>n. 1 / 2) ?sm))))
             = CONFIG_shapes_maxActiveShapes"
    by (rule w4[THEN conjunct2, THEN conjunct1])
  have a2: "hd (shapes ?sm) \<notin> set (shapes (snd (snd (createShape ?key 0 (\<lambda>n. 1 / 2) ?sm))))"
    by (rule w4[THEN conjunct2, THEN conjunct2, THEN conjunct1])
  have a3: "last (pool (shapePool (snd (snd (createShape ?key 0 (\<lambda>n. 1 / 2) ?sm)))))
             = hd (shapes ?sm)"
    by (rule w4[THEN conjunct2, THEN conjunct2, THEN conjunct2, THEN conjunct1])
  have prem8: "ps_wf ?ps \<and> length (particles ?ps) = CONFIG_particles_maxActiveParticles"
    using pwf pfull by (intro conjI)
  note w7 = w[THEN conjunct2, THEN conjunct2, THEN conjunct2, THEN conjunct2, THEN conjunct2,
      THEN conjunct2, THEN conjunct1, THEN mp, OF ple]
  note w8 = w[THEN conjunct2, THEN conjunct2, THEN conjunct2, THEN conjunct2, THEN conjunct2,
      THEN conjunct2, THEN conjunct2, THEN conjunct1, THEN mp, OF prem8]
  note w9 = w[THEN conjunct2, THEN conjunct2, THEN conjunct2, THEN conjunct2, THEN conjunct2,
      THEN conjunct2, THEN conjunct2, THEN conjunct2, THEN conjunct1, THEN mp, OF pge]
  have b: "particles (snd (snd (createParticle 10 20 ?opts (\<lambda>n. 1 / 2) ?ps)))
             = tl (particles ?ps) @ [fst (createParticle 10 20 ?opts (\<lambda>n. 1 / 2) ?ps)]"
    by (rule w8[THEN conjunct2, THEN conjunct2, THEN conjunct2, THEN conjunct1])
  have c: "particles (snd (createBurst 10 20 15 0 (\<lambda>n. 1 / 2) ?ps)) = particles ?ps"
    using arg_cong[OF w9, of "\<lambda>x. particles (snd x)"] by (simp only: snd_conv)
  have d: "length (particles (spawnParticles ?qs (\<lambda>n. 1 / 2) ?ps))
             \<le> CONFIG_particles_maxActiveParticles"
    by (rule w7[THEN conjunct2, THEN conjunct1])
  have p100: "particles ?ps = [0..<100]" by simp
  show ?thesis
    using a1 a2 a3 b c d unfolding hd0 tl1 p100
    by (simp add: CONFIG_shapes_maxActiveShapes_def CONFIG_particles_maxActiveParticles_def)
qed

text \<open>
  C1 as the specification states it fails on \<open>createBurst\<close>: a new particle system is
  filled by 100 calls of \<open>createParticle\<close>; a burst of 15 particles on that system
  leaves it as it is.  No particle is created, the oldest particle stays live and
  nothing is released to the pool.
\<close>

theorem createBurst_at_capacity_counterexample:
  "length (particles (spawnParticles
       (replicate 100 (SpawnParticle 10 20
          \<lparr>po_type = None, po_isClickParticle = None, po_burstIntensity = None\<rparr>))
       (\<lambda>n. 1 / 2)
       (ParticleSystem_new
          \<lparr>cv_width = 800, cv_height = 600, cv_rect_width = 800, cv_rect_height = 600\<rparr>))) = 100
   \<and> snd (createBurst 400 300 15 0 (\<lambda>n. 1 / 2)
       (spawnParticles
          (replicate 100 (SpawnParticle 10 20
             \<lparr>po_type = None, po_isClickParticle = None, po_burstIntensity = None\<rparr>))
          (\<lambda>n. 1 / 2)
          (ParticleSystem_new
             \<lparr>cv_width = 800, cv_height = 600, cv_rect_width = 800, cv_rect_height = 600\<rparr>)))
     = spawnParticles
          (replicate 100 (SpawnParticle 10 20
             \<lparr>po_type = None, po_isClickParticle = None, po_burstIntensity = None\<rparr>))
          (\<lambda>n. 1 / 2)
          (ParticleSystem_new
             \<lparr>cv_width = 800, cv_height = 600, cv_rect_width = 800, cv_rect_height = 600\<rparr>)
   \<and> hd (particles (spawnParticles
          (replicate 100 (SpawnParticle 10 20
             \<lparr>po_type = None, po_isClickParticle = None, po_burstIntensity = None\<rparr>))
          (\<lambda>n. 1 / 2)
          (ParticleSystem_new
             \<lparr>cv_width = 800, cv_height = 600, cv_rect_width = 800, cv_rect_height = 600\<rparr>)))
       \<in> set (particles (snd (createBurst 400 300 15 0 (\<lambda>n. 1 / 2)
       (spawnParticles
          (replicate 100 (SpawnParticle 10 20
             \<lparr>po_type = None, po_isClickParticle = None, po_burstIntensity = None\<rparr>))
          (\<lambda>n. 1 / 2)
          (ParticleSystem_new
             \<lparr>cv_width = 800, cv_height = 600, cv_rect_width = 800, cv_rect_height = 600\<rparr>)))))"
proof -
  let ?cv = "\<lparr>cv_width = 800, cv_height = 600, cv_rect_width = 800, cv_rect_height = 600\<rparr>"
  let ?opts = "\<lparr>po_type = None, po_isClickParticle = None, po_burstIntensity = None\<rparr>"
  let ?full = "spawnParticles (replicate 100 (SpawnParticle 10 20 ?opts)) (\<lambda>n. 1 / 2)
                 (ParticleSystem_new ?cv)"
  have p0: "length (particles (ParticleSystem_new ?cv)) \<le> CONFIG_particles_maxActiveParticles"
    by (simp add: ParticleSystem_new_eq)
  have e0: "length (particles (ParticleSystem_new ?cv)) = 0"
    by (simp add: ParticleSystem_new_eq)
  have len: "length (particles ?full) = 100"
    unfolding spawnParticles_replicate_length[OF p0] e0
    by (simp add: CONFIG_particles_maxActiveParticles_def)
  then have ge: "length (particles ?full) \<ge> CONFIG_particles_maxActiveParticles"
    by (simp add: CONFIG_particles_maxActiveParticles_def)
  have same: "snd (createBurst 400 300 15 0 (\<lambda>n. 1 / 2) ?full) = ?full"
    unfolding createBurst_def createBurst_loop_full[OF ge] by (rule snd_conv)
  have ne: "particles ?full \<noteq> []" using len by auto
  have hd_in: "hd (particles ?full) \<in> set (particles ?full)" using ne by (rule hd_in_set)
  show ?thesis unfolding same using len hd_in by (intro conjI refl)
qed


subsection \<open>The positions of spawned entities\<close>


















end
